theory Spec2Isabelle
  imports
    Complex_Main
    "HOL-Library.Multiset"
    "HOL-Library.Char_ord"
    "HOL-Library.List_Lexorder"
    "HOL-Library.Product_Lexorder"
begin

section \<open>The table read from the CSV file\<close>

text \<open>
  \<^verbatim>\<open>logic.py\<close> works on the pandas table \<^verbatim>\<open>df\<close> that \<^verbatim>\<open>read_csv\<close> returns. A value of that
  table is a missing value (pandas' NaN), a number, or a piece of text. The numbers of the
  table are modelled as reals; an infinity, which \<^verbatim>\<open>read_csv\<close> reads from the word
  \<^verbatim>\<open>inf\<close>, is outside the model of a cell. What floating point arithmetic computes from
  these numbers is modelled in the section on floating point below.
\<close>

datatype cell = NaN | Num real | Txt string

datatype py_error = ValueError | TypeError

text \<open>\<^verbatim>\<open>pd.isna(v)\<close> and \<^verbatim>\<open>Series.notna()\<close>, on one value.\<close>

fun isna :: "cell \<Rightarrow> bool" where
  "isna NaN = True"
| "isna (Num x) = False"
| "isna (Txt s) = False"

fun is_text :: "cell \<Rightarrow> bool" where
  "is_text (Txt s) = True"
| "is_text NaN = False"
| "is_text (Num x) = False"

text \<open>
  The elementwise \<^verbatim>\<open>==\<close> of a column with a scalar: NaN equals nothing (itself
  included), a number never equals a text.
\<close>

fun cell_eq :: "cell \<Rightarrow> cell \<Rightarrow> bool" where
  "cell_eq (Num x) (Num y) = (x = y)"
| "cell_eq (Txt s) (Txt t) = (s = t)"
| "cell_eq a b = False"

text \<open>
  The builtin \<^verbatim>\<open>float(v)\<close>. On text it parses; the parser of the Python runtime is the
  parameter \<open>pf\<close> (\<open>None\<close> where \<^verbatim>\<open>float\<close> raises ValueError), so every theorem holds for
  every parser. The result \<open>Inr None\<close> is the float nan, which \<^verbatim>\<open>float\<close> returns for a
  missing value.
\<close>

fun py_float :: "(string \<Rightarrow> real option) \<Rightarrow> cell \<Rightarrow> py_error + real option" where
  "py_float pf NaN = Inr None"
| "py_float pf (Num x) = Inr (Some x)"
| "py_float pf (Txt s) = (case pf s of None \<Rightarrow> Inl ValueError | Some x \<Rightarrow> Inr (Some x))"

text \<open>
  One data row: the three index columns \<^verbatim>\<open>a_fiscal_year\<close>, \<^verbatim>\<open>a_jurisdiction\<close>,
  \<^verbatim>\<open>a_service\<close>, and the value under every metric code (\<^verbatim>\<open>row[metric]\<close>).
\<close>

record row =
  a_fiscal_year :: cell
  a_jurisdiction :: cell
  a_service :: cell
  metric_value :: "string \<Rightarrow> cell"

text \<open>
  The table after its header is flattened: \<open>header\<close> lists, for the columns from the
  fourth on, the metric code and the name on the second header row; \<open>body\<close> holds the
  data rows, whose index labels are their positions \<open>0, 1, ...\<close>.
\<close>

record dataframe =
  header :: "(string \<times> string) list"
  body :: "row list"

type_synonym frame = "(nat \<times> row) list"

definition metric_cols :: "dataframe \<Rightarrow> string list" where
  "metric_cols df = map fst (header df)"

text \<open>\<^verbatim>\<open>metric_names[metric_code] = metric_name\<close> for every metric column, in order.\<close>

definition metric_names :: "dataframe \<Rightarrow> (string \<rightharpoonup> string)" where
  "metric_names df = fold (\<lambda>(code, name) m. m(code \<mapsto> name)) (header df) Map.empty"

text \<open>\<^verbatim>\<open>df_detection = df[df[category_col].notna()]\<close>: the rows keep their labels.\<close>

definition df_detection :: "dataframe \<Rightarrow> frame" where
  "df_detection df = filter (\<lambda>(idx, r). \<not> isna (a_service r)) (enumerate 0 (body df))"

text \<open>
  \<^verbatim>\<open>columns.get_loc(metric)\<close>: the position of the metric among all columns, the three
  index columns first (column labels are unique in a table that \<^verbatim>\<open>read_csv\<close> returns).
\<close>

fun index_of :: "string \<Rightarrow> string list \<Rightarrow> nat" where
  "index_of m [] = 0"
| "index_of m (c # cs) = (if c = m then 0 else Suc (index_of m cs))"

definition get_loc :: "string list \<Rightarrow> string \<Rightarrow> nat" where
  "get_loc cols metric = 3 + index_of metric cols"

section \<open>The history of a cell\<close>

text \<open>
  \<^verbatim>\<open>hist_rows\<close>: the rows of \<^verbatim>\<open>df_detection\<close> with an earlier year, the same
  jurisdiction and the same category, restricted to the columns year, category and
  metric, without the rows where one of the three is missing (\<^verbatim>\<open>dropna()\<close>).
  The comparison \<^verbatim>\<open>df_detection[year_col] < current_year\<close> is evaluated on the whole
  column: a piece of text in it raises TypeError (text and float do not compare), which
  nothing in the loop catches; a missing year compares false.
\<close>

fun num_lt :: "cell \<Rightarrow> real \<Rightarrow> bool" where
  "num_lt (Num x) y = (x < y)"
| "num_lt NaN y = False"
| "num_lt (Txt s) y = False"

definition hist_rows :: "frame \<Rightarrow> real \<Rightarrow> cell \<Rightarrow> cell \<Rightarrow> string \<Rightarrow> py_error + frame" where
  "hist_rows dfd current_year raw_muni raw_category metric =
     (if list_ex (\<lambda>(idx, r). is_text (a_fiscal_year r)) dfd then Inl TypeError
      else Inr (filter (\<lambda>(idx, r). \<not> isna (a_fiscal_year r) \<and> \<not> isna (a_service r)
                                     \<and> \<not> isna (metric_value r metric))
                 (filter (\<lambda>(idx, r). num_lt (a_fiscal_year r) current_year
                                     \<and> cell_eq (a_jurisdiction r) raw_muni
                                     \<and> cell_eq (a_service r) raw_category) dfd)))"

text \<open>
  \<^verbatim>\<open>hist_rows[metric].astype(float).values\<close> inside \<^verbatim>\<open>try\<close>: when one value of the
  column does not parse, the ValueError is caught and the history is the empty array.
  (No value is missing here: \<^verbatim>\<open>dropna\<close> removed those rows.)
\<close>

definition historical_data :: "(string \<Rightarrow> real option) \<Rightarrow> frame \<Rightarrow> string \<Rightarrow> real list" where
  "historical_data pf hrows metric =
     (let vs = map (\<lambda>(idx, r). py_float pf (metric_value r metric)) hrows
      in if list_ex isl vs then []
         else concat (map (\<lambda>v. case v of Inr (Some x) \<Rightarrow> [x] | _ \<Rightarrow> []) vs))"

text \<open>
  \<^verbatim>\<open>hist_comment\<close> joins one line \<^verbatim>\<open>year: value\<close> per history row. The model keeps the
  pairs that are rendered, not the text.
\<close>

definition hist_comment :: "frame \<Rightarrow> string \<Rightarrow> (cell \<times> cell) list" where
  "hist_comment hrows metric = map (\<lambda>(idx, r). (a_fiscal_year r, metric_value r metric)) hrows"

section \<open>Floating point\<close>

text \<open>
  The statistics are computed in 64-bit floating point. A float is a finite number, one of
  the two infinities, or nan. The finite floats are a subset of the reals; the model lets
  every real stand as a finite float and fixes nothing about rounding.

  Comparisons and \<^verbatim>\<open>abs\<close> are exact in floating point, so they are defined here:
  \<^verbatim>\<open>std_dev != 0\<close>, \<^verbatim>\<open>abs(z_score)\<close> and \<^verbatim>\<open>abs(z_score) > threshold\<close> (nan is different
  from 0 and is above nothing).
\<close>

datatype float64 = Finite real | PosInf | NegInf | NotANumber

fun f_nonzero :: "float64 \<Rightarrow> bool" where
  "f_nonzero (Finite x) = (x \<noteq> 0)"
| "f_nonzero PosInf = True"
| "f_nonzero NegInf = True"
| "f_nonzero NotANumber = True"

fun f_abs :: "float64 \<Rightarrow> float64" where
  "f_abs (Finite x) = Finite \<bar>x\<bar>"
| "f_abs PosInf = PosInf"
| "f_abs NegInf = PosInf"
| "f_abs NotANumber = NotANumber"

fun f_gt :: "float64 \<Rightarrow> real \<Rightarrow> bool" where
  "f_gt (Finite x) t = (x > t)"
| "f_gt PosInf t = True"
| "f_gt NegInf t = False"
| "f_gt NotANumber t = False"

text \<open>
  The operations that round are parameters of the model, so that every theorem holds for
  the arithmetic of the machine, whatever it returns: numpy's \<^verbatim>\<open>mean()\<close> and \<^verbatim>\<open>std()\<close> of
  the history array (\<^verbatim>\<open>std\<close> is the population standard deviation, \<^verbatim>\<open>ddof=0\<close>), the
  subtraction \<^verbatim>\<open>current_val - mean\<close> and the division by \<^verbatim>\<open>std_dev\<close>.
\<close>

record arith =
  np_mean :: "real list \<Rightarrow> float64"
  np_std :: "real list \<Rightarrow> float64"
  f_sub :: "real \<Rightarrow> float64 \<Rightarrow> float64"
  f_div :: "float64 \<Rightarrow> float64 \<Rightarrow> float64"

text \<open>
  \<^verbatim>\<open>z_score = (current_val - mean) / std_dev if std_dev != 0 else 0\<close>, on the mean and
  the deviation that numpy returned.
\<close>

definition z_score :: "arith \<Rightarrow> real \<Rightarrow> real list \<Rightarrow> float64" where
  "z_score ar current_val xs =
     (if f_nonzero (np_std ar xs)
      then f_div ar (f_sub ar current_val (np_mean ar xs)) (np_std ar xs)
      else Finite 0)"

section \<open>The detection loop\<close>

record anomaly =
  an_excel_row :: nat
  an_excel_col :: nat
  an_current_val :: real
  an_mean :: float64
  an_std_dev :: float64
  an_z_score :: float64
  an_year :: cell
  an_muni :: cell
  an_category :: cell
  an_metric :: string
  an_hist_comment :: "(cell \<times> cell) list"

record missing =
  ms_excel_row :: nat
  ms_excel_col :: nat
  ms_year :: cell
  ms_muni :: cell
  ms_category :: cell
  ms_metric :: string
  ms_hist_comment :: "(cell \<times> cell) list"

record nonnum =
  nn_excel_row :: nat
  nn_excel_col :: nat
  nn_val :: cell
  nn_year :: cell
  nn_muni :: cell
  nn_category :: cell
  nn_metric :: string

datatype outcome = NoEvent | IsAnomaly anomaly | IsMissing missing | IsNonNumeric nonnum

text \<open>
  The history of the cell of \<open>row\<close> under \<open>metric\<close>, as the loop body asks for it once
  the year of the row has been found equal to the target year.
\<close>

definition cell_history :: "frame \<Rightarrow> int \<Rightarrow> row \<Rightarrow> string \<Rightarrow> py_error + frame" where
  "cell_history dfd target_year r metric =
     hist_rows dfd (of_int target_year) (a_jurisdiction r) (a_service r) metric"

text \<open>
  The body of the inner loop for one row and one metric. \<open>Inr NoEvent\<close> is a
  \<^verbatim>\<open>continue\<close> or the fall through at the end of the body; \<open>Inl e\<close> is an exception
  that leaves the loop.
\<close>

definition classify_cell ::
  "(string \<Rightarrow> real option) \<Rightarrow> arith \<Rightarrow> real \<Rightarrow> int \<Rightarrow> string list \<Rightarrow> frame \<Rightarrow> string
     \<Rightarrow> nat \<times> row \<Rightarrow> py_error + outcome" where
  "classify_cell pf ar threshold target_year cols dfd metric ir =
     (case ir of (idx, r) \<Rightarrow>
       let raw_year = a_fiscal_year r; raw_muni = a_jurisdiction r; raw_category = a_service r in
       case py_float pf raw_year of
         Inl e \<Rightarrow> Inr NoEvent
       | Inr current_year \<Rightarrow>
           if current_year \<noteq> Some (of_int target_year) then Inr NoEvent
           else
             let val = metric_value r metric;
                 excel_row = idx + 2;
                 excel_col = get_loc cols metric + 1
             in case (if \<not> isna val then py_float pf val else Inr None) of
                  Inl e \<Rightarrow> Inr (IsNonNumeric \<lparr>nn_excel_row = excel_row, nn_excel_col = excel_col,
                              nn_val = val, nn_year = raw_year, nn_muni = raw_muni,
                              nn_category = raw_category, nn_metric = metric\<rparr>)
                | Inr current_val \<Rightarrow>
                    (case cell_history dfd target_year r metric of
                       Inl e \<Rightarrow> Inl e
                     | Inr hrows \<Rightarrow>
                         let hist = historical_data pf hrows metric;
                             comment = hist_comment hrows metric
                         in if isna val \<and> length hist > 0 then
                              Inr (IsMissing \<lparr>ms_excel_row = excel_row, ms_excel_col = excel_col,
                                     ms_year = raw_year, ms_muni = raw_muni,
                                     ms_category = raw_category, ms_metric = metric,
                                     ms_hist_comment = comment\<rparr>)
                            else (case current_val of
                                    None \<Rightarrow> Inr NoEvent
                                  | Some v \<Rightarrow>
                                      if length hist < 2 then Inr NoEvent
                                      else if f_gt (f_abs (z_score ar v hist)) threshold then
                                        Inr (IsAnomaly \<lparr>an_excel_row = excel_row,
                                               an_excel_col = excel_col, an_current_val = v,
                                               an_mean = np_mean ar hist,
                                               an_std_dev = np_std ar hist,
                                               an_z_score = z_score ar v hist, an_year = raw_year,
                                               an_muni = raw_muni, an_category = raw_category,
                                               an_metric = metric, an_hist_comment = comment\<rparr>)
                                      else Inr NoEvent)))"

text \<open>The three lists the loop appends to.\<close>

record detection =
  anomalies :: "anomaly list"
  missing_data :: "missing list"
  non_numeric :: "nonnum list"

fun record_outcome :: "outcome \<Rightarrow> detection \<Rightarrow> detection" where
  "record_outcome NoEvent d = d"
| "record_outcome (IsAnomaly a) d = d\<lparr>anomalies := anomalies d @ [a]\<rparr>"
| "record_outcome (IsMissing m) d = d\<lparr>missing_data := missing_data d @ [m]\<rparr>"
| "record_outcome (IsNonNumeric n) d = d\<lparr>non_numeric := non_numeric d @ [n]\<rparr>"

text \<open>\<^verbatim>\<open>for idx, row in df_detection.iterrows()\<close>, for one metric.\<close>

fun detect_rows ::
  "(string \<Rightarrow> real option) \<Rightarrow> arith \<Rightarrow> real \<Rightarrow> int \<Rightarrow> string list \<Rightarrow> frame \<Rightarrow> string \<Rightarrow> frame
     \<Rightarrow> detection \<Rightarrow> py_error + detection" where
  "detect_rows pf ar threshold target_year cols dfd metric [] d = Inr d"
| "detect_rows pf ar threshold target_year cols dfd metric (ir # rest) d =
     (case classify_cell pf ar threshold target_year cols dfd metric ir of
        Inl e \<Rightarrow> Inl e
      | Inr oc \<Rightarrow> detect_rows pf ar threshold target_year cols dfd metric rest (record_outcome oc d))"

text \<open>\<^verbatim>\<open>for metric in metric_cols\<close>.\<close>

fun detect_metrics ::
  "(string \<Rightarrow> real option) \<Rightarrow> arith \<Rightarrow> real \<Rightarrow> int \<Rightarrow> string list \<Rightarrow> frame \<Rightarrow> string list
     \<Rightarrow> detection \<Rightarrow> py_error + detection" where
  "detect_metrics pf ar threshold target_year cols dfd [] d = Inr d"
| "detect_metrics pf ar threshold target_year cols dfd (metric # rest) d =
     (case detect_rows pf ar threshold target_year cols dfd metric dfd d of
        Inl e \<Rightarrow> Inl e
      | Inr d' \<Rightarrow> detect_metrics pf ar threshold target_year cols dfd rest d')"

definition detect ::
  "(string \<Rightarrow> real option) \<Rightarrow> arith \<Rightarrow> real \<Rightarrow> int \<Rightarrow> dataframe \<Rightarrow> py_error + detection" where
  "detect pf ar threshold target_year df =
     detect_metrics pf ar threshold target_year (metric_cols df) (df_detection df) (metric_cols df)
       \<lparr>anomalies = [], missing_data = [], non_numeric = []\<rparr>"

section \<open>The history as the specification words it\<close>

text \<open>
  The specification's HistoricalSeries of the cell of \<open>r\<close> under \<open>metric\<close>: the values
  of the rows with the same jurisdiction and category and a year before the target year,
  where the value is present and parses as a number; a value that does not parse is
  left out on its own. This definition follows the specification, not the code; the
  theorems below compare it with \<open>historical_data\<close>.
\<close>

definition earlier_rows :: "frame \<Rightarrow> int \<Rightarrow> row \<Rightarrow> frame" where
  "earlier_rows dfd target_year r =
     filter (\<lambda>(idx, h). num_lt (a_fiscal_year h) (of_int target_year)
                        \<and> cell_eq (a_jurisdiction h) (a_jurisdiction r)
                        \<and> cell_eq (a_service h) (a_service r)) dfd"

definition spec_historical_series ::
  "(string \<Rightarrow> real option) \<Rightarrow> frame \<Rightarrow> int \<Rightarrow> row \<Rightarrow> string \<Rightarrow> real list" where
  "spec_historical_series pf dfd target_year r metric =
     concat (map (\<lambda>(idx, h). case py_float pf (metric_value h metric) of
                                Inr (Some x) \<Rightarrow> [x] | _ \<Rightarrow> [])
                 (earlier_rows dfd target_year r))"

text \<open>Some earlier row of the same jurisdiction and category holds a value that does not parse.\<close>

definition history_unparseable ::
  "(string \<Rightarrow> real option) \<Rightarrow> frame \<Rightarrow> int \<Rightarrow> row \<Rightarrow> string \<Rightarrow> bool" where
  "history_unparseable pf dfd target_year r metric =
     list_ex (\<lambda>(idx, h). isl (py_float pf (metric_value h metric))) (earlier_rows dfd target_year r)"

text \<open>
  The arithmetic mean, the population standard deviation and the z-score over the reals,
  without rounding: what the formulas of the specification denote. They are not what the
  program computes (that is \<open>np_mean\<close>, \<open>np_std\<close> and \<open>z_score\<close> above); the theorems
  below compare the two.
\<close>

definition exact_mean :: "real list \<Rightarrow> real" where
  "exact_mean xs = sum_list xs / real (length xs)"

definition exact_std :: "real list \<Rightarrow> real" where
  "exact_std xs = sqrt (sum_list (map (\<lambda>x. (x - exact_mean xs)\<^sup>2) xs) / real (length xs))"

definition exact_z_score :: "real \<Rightarrow> real list \<Rightarrow> real" where
  "exact_z_score v xs = (v - exact_mean xs) / exact_std xs"

text \<open>
  The arithmetic \<open>ar\<close> returns finite floats within \<open>eps\<close> of the exact results at
  the four operations of the z-score of \<open>v\<close> against \<open>xs\<close>.
\<close>

definition accurate_at :: "arith \<Rightarrow> real \<Rightarrow> real list \<Rightarrow> real \<Rightarrow> bool" where
  "accurate_at ar v xs eps =
     (\<exists>m s d q. np_mean ar xs = Finite m \<and> \<bar>m - exact_mean xs\<bar> \<le> eps
        \<and> np_std ar xs = Finite s \<and> \<bar>s - exact_std xs\<bar> \<le> eps
        \<and> f_sub ar v (Finite m) = Finite d \<and> \<bar>d - (v - m)\<bar> \<le> eps
        \<and> f_div ar (Finite d) (Finite s) = Finite q \<and> \<bar>q - d / s\<bar> \<le> eps)"

text \<open>Events of the three lists that sit on the cell of row \<open>idx\<close> and column \<open>metric\<close>.\<close>

definition anomaly_at :: "detection \<Rightarrow> string list \<Rightarrow> nat \<Rightarrow> string \<Rightarrow> bool" where
  "anomaly_at det cols idx metric =
     list_ex (\<lambda>a. an_excel_row a = idx + 2 \<and> an_excel_col a = get_loc cols metric + 1) (anomalies det)"

definition missing_at :: "detection \<Rightarrow> string list \<Rightarrow> nat \<Rightarrow> string \<Rightarrow> bool" where
  "missing_at det cols idx metric =
     list_ex (\<lambda>a. ms_excel_row a = idx + 2 \<and> ms_excel_col a = get_loc cols metric + 1) (missing_data det)"

definition non_numeric_at :: "detection \<Rightarrow> string list \<Rightarrow> nat \<Rightarrow> string \<Rightarrow> bool" where
  "non_numeric_at det cols idx metric =
     list_ex (\<lambda>a. nn_excel_row a = idx + 2 \<and> nn_excel_col a = get_loc cols metric + 1) (non_numeric det)"

section \<open>The lookup dictionaries\<close>

text \<open>
  \<^verbatim>\<open>str(v)\<close>: a text is itself, a missing value prints as \<^verbatim>\<open>nan\<close>; the rendering of a
  float is the parameter \<open>fstr\<close>. \<^verbatim>\<open>str.strip()\<close> removes the leading and trailing white
  space of Unicode; it is the parameter \<open>pstrip\<close> of the model, so that every theorem
  holds for the \<^verbatim>\<open>strip\<close> of the Python runtime.
\<close>

fun py_str :: "(real \<Rightarrow> string) \<Rightarrow> cell \<Rightarrow> string" where
  "py_str fstr (Txt s) = s"
| "py_str fstr (Num x) = fstr x"
| "py_str fstr NaN = ''nan''"

type_synonym entity = "string \<times> string \<times> string"

definition entity_key ::
  "(string \<Rightarrow> string) \<Rightarrow> (real \<Rightarrow> string) \<Rightarrow> cell \<Rightarrow> cell \<Rightarrow> string \<Rightarrow> entity" where
  "entity_key pstrip fstr muni category metric =
     (pstrip (py_str fstr muni), pstrip (py_str fstr category), metric)"

text \<open>\<^verbatim>\<open>f"{metric} - {metric_names.get(metric, '')}"\<close>\<close>

definition metric_note :: "(string \<rightharpoonup> string) \<Rightarrow> string \<Rightarrow> string" where
  "metric_note names metric =
     metric @ '' - '' @ (case names metric of None \<Rightarrow> [] | Some name \<Rightarrow> name)"

text \<open>
  A note is a formatted text. The model keeps the values that the format string
  interpolates, in their order: the year (only in the notes of the summary), the
  municipality, the category, the metric note, and then the values of the event.
\<close>

datatype note_text =
    AnomalyDetected "cell option" cell cell string real float64 float64 float64
      "(cell \<times> cell) list"
  | MissingData "cell option" cell cell string "(cell \<times> cell) list"
  | NonNumericValue "cell option" cell cell string cell

definition anomaly_note :: "(string \<rightharpoonup> string) \<Rightarrow> bool \<Rightarrow> anomaly \<Rightarrow> note_text" where
  "anomaly_note names with_year a =
     AnomalyDetected (if with_year then Some (an_year a) else None) (an_muni a) (an_category a)
       (metric_note names (an_metric a)) (an_current_val a) (an_mean a) (an_std_dev a)
       (an_z_score a) (an_hist_comment a)"

definition missing_note :: "(string \<rightharpoonup> string) \<Rightarrow> bool \<Rightarrow> missing \<Rightarrow> note_text" where
  "missing_note names with_year m =
     MissingData (if with_year then Some (ms_year m) else None) (ms_muni m) (ms_category m)
       (metric_note names (ms_metric m)) (ms_hist_comment m)"

definition non_numeric_note :: "(string \<rightharpoonup> string) \<Rightarrow> bool \<Rightarrow> nonnum \<Rightarrow> note_text" where
  "non_numeric_note names with_year n =
     NonNumericValue (if with_year then Some (nn_year n) else None) (nn_muni n) (nn_category n)
       (metric_note names (nn_metric n)) (nn_val n)"

text \<open>\<^verbatim>\<open>for anomaly in anomalies: ... anomaly_dict[key] = ...\<close>, and its two siblings.\<close>

definition anomaly_key :: "(string \<Rightarrow> string) \<Rightarrow> (real \<Rightarrow> string) \<Rightarrow> anomaly \<Rightarrow> entity" where
  "anomaly_key pstrip fstr a = entity_key pstrip fstr (an_muni a) (an_category a) (an_metric a)"

definition missing_key :: "(string \<Rightarrow> string) \<Rightarrow> (real \<Rightarrow> string) \<Rightarrow> missing \<Rightarrow> entity" where
  "missing_key pstrip fstr m = entity_key pstrip fstr (ms_muni m) (ms_category m) (ms_metric m)"

definition non_numeric_key :: "(string \<Rightarrow> string) \<Rightarrow> (real \<Rightarrow> string) \<Rightarrow> nonnum \<Rightarrow> entity" where
  "non_numeric_key pstrip fstr n = entity_key pstrip fstr (nn_muni n) (nn_category n) (nn_metric n)"

definition anomaly_dict ::
  "(string \<Rightarrow> string) \<Rightarrow> (real \<Rightarrow> string) \<Rightarrow> (string \<rightharpoonup> string) \<Rightarrow> anomaly list \<Rightarrow> (entity \<rightharpoonup> note_text)" where
  "anomaly_dict pstrip fstr names as =
     fold (\<lambda>a d. d(anomaly_key pstrip fstr a \<mapsto> anomaly_note names False a)) as Map.empty"

definition missing_dict ::
  "(string \<Rightarrow> string) \<Rightarrow> (real \<Rightarrow> string) \<Rightarrow> (string \<rightharpoonup> string) \<Rightarrow> missing list \<Rightarrow> (entity \<rightharpoonup> note_text)" where
  "missing_dict pstrip fstr names ms =
     fold (\<lambda>m d. d(missing_key pstrip fstr m \<mapsto> missing_note names False m)) ms Map.empty"

definition non_numeric_dict ::
  "(string \<Rightarrow> string) \<Rightarrow> (real \<Rightarrow> string) \<Rightarrow> (string \<rightharpoonup> string) \<Rightarrow> nonnum list \<Rightarrow> (entity \<rightharpoonup> note_text)" where
  "non_numeric_dict pstrip fstr names ns =
     fold (\<lambda>n d. d(non_numeric_key pstrip fstr n \<mapsto> non_numeric_note names False n)) ns Map.empty"

section \<open>The pivot\<close>

text \<open>
  An order on values for sorted labels: numbers by size, texts by code points, numbers
  before texts, missing values last. A column that \<^verbatim>\<open>read_csv\<close> returns holds only
  numbers or only texts beside missing values, which are never labels.
\<close>

fun cell_le :: "cell \<Rightarrow> cell \<Rightarrow> bool" where
  "cell_le (Num x) (Num y) = (x \<le> y)"
| "cell_le (Num x) b = True"
| "cell_le (Txt s) (Num y) = False"
| "cell_le (Txt s) (Txt t) = (s \<le> t)"
| "cell_le (Txt s) NaN = True"
| "cell_le NaN NaN = True"
| "cell_le NaN b = False"

instantiation cell :: linorder
begin

definition less_eq_cell :: "cell \<Rightarrow> cell \<Rightarrow> bool" where
  "less_eq_cell a b = cell_le a b"

definition less_cell :: "cell \<Rightarrow> cell \<Rightarrow> bool" where
  "less_cell a b = (cell_le a b \<and> \<not> cell_le b a)"

instance
proof
  fix x y z :: cell
  show "(x < y) = (x \<le> y \<and> \<not> y \<le> x)"
    by (simp add: less_cell_def less_eq_cell_def)
  show "x \<le> x"
    by (cases x) (simp_all add: less_eq_cell_def)
  show "x \<le> y \<Longrightarrow> y \<le> z \<Longrightarrow> x \<le> z"
    by (cases x; cases y; cases z) (auto simp: less_eq_cell_def)
  show "x \<le> y \<Longrightarrow> y \<le> x \<Longrightarrow> x = y"
    by (cases x; cases y) (auto simp: less_eq_cell_def)
  show "x \<le> y \<or> y \<le> x"
    by (cases x; cases y) (auto simp: less_eq_cell_def)
qed

end

text \<open>
  \<^verbatim>\<open>transform_data\<close> first builds one long row
  \<^verbatim>\<open>[municipality, category, metric, year, value]\<close> per row and metric column.
\<close>

type_synonym long_row = "cell \<times> cell \<times> string \<times> cell \<times> cell"

definition transformed :: "string list \<Rightarrow> frame \<Rightarrow> long_row list" where
  "transformed cols dfd =
     concat (map (\<lambda>(idx, r). map (\<lambda>metric. (a_jurisdiction r, a_service r, metric,
                                             a_fiscal_year r, metric_value r metric)) cols) dfd)"

text \<open>
  \<^verbatim>\<open>pivot_table(index=[Municipality, Category, Metric], columns='Year', values='Value',
  aggfunc='first')\<close> of pandas, with its defaults \<^verbatim>\<open>dropna=True\<close> and \<^verbatim>\<open>sort=True\<close>:
  \<^item> the long rows are grouped by municipality, category, metric and year, and a long row
    with a missing value in one of these keys belongs to no group;
  \<^item> \<^verbatim>\<open>first\<close> gives every group its first value that is not missing, in input order;
    a group with no such value is dropped from the table;
  \<^item> the groups are unstacked: one row per remaining (municipality, category, metric),
    one column per remaining year, both in ascending order, and a missing value where
    a row has no group for a year.
  The year labels are kept as values; their rendering by \<^verbatim>\<open>str(col)\<close> is not modelled.
\<close>

type_synonym series_key = "cell \<times> cell \<times> string"

fun lr_key :: "long_row \<Rightarrow> series_key" where
  "lr_key (m, c, mt, yr, v) = (m, c, mt)"

fun lr_year :: "long_row \<Rightarrow> cell" where
  "lr_year (m, c, mt, yr, v) = yr"

fun lr_value :: "long_row \<Rightarrow> cell" where
  "lr_value (m, c, mt, yr, v) = v"

fun lr_grouped :: "long_row \<Rightarrow> bool" where
  "lr_grouped (m, c, mt, yr, v) = (\<not> isna m \<and> \<not> isna c \<and> \<not> isna yr)"

definition group_first :: "long_row list \<Rightarrow> series_key \<Rightarrow> cell \<Rightarrow> cell" where
  "group_first es k y =
     (case filter (\<lambda>e. lr_key e = k \<and> lr_year e = y \<and> \<not> isna (lr_value e)) es of
        [] \<Rightarrow> NaN
      | e # _ \<Rightarrow> lr_value e)"

record pivot =
  p_columns :: "cell list"
  p_rows :: "(series_key \<times> cell list) list"

definition pivot_table :: "long_row list \<Rightarrow> pivot" where
  "pivot_table es =
     (let grouped = filter lr_grouped es;
          agged = filter (\<lambda>e. \<not> isna (lr_value e)) grouped;
          index = sort (remdups (map lr_key agged));
          columns = sort (remdups (map lr_year agged))
      in \<lparr>p_columns = columns,
          p_rows = map (\<lambda>k. (k, map (group_first grouped k) columns)) index\<rparr>)"

definition transform_data :: "string list \<Rightarrow> frame \<Rightarrow> pivot" where
  "transform_data cols dfd = pivot_table (transformed cols dfd)"

text \<open>The cell of the pivoted table in the row of key \<open>k\<close> under the column of year \<open>y\<close>.\<close>

definition pivot_cell :: "pivot \<Rightarrow> series_key \<Rightarrow> cell \<Rightarrow> cell option" where
  "pivot_cell pv k y =
     (case map_of (p_rows pv) k of
        None \<Rightarrow> None
      | Some vs \<Rightarrow> map_of (zip (p_columns pv) vs) y)"

section \<open>The events summary\<close>

record summary_row =
  s_muni :: cell
  s_category :: cell
  s_metric_note :: string
  s_type :: string
  s_value :: cell
  s_note :: note_text

definition summary_data :: "(string \<rightharpoonup> string) \<Rightarrow> detection \<Rightarrow> summary_row list" where
  "summary_data names det =
     map (\<lambda>a. \<lparr>s_muni = an_muni a, s_category = an_category a,
                s_metric_note = metric_note names (an_metric a), s_type = ''Anomaly'',
                s_value = Num (an_current_val a), s_note = anomaly_note names True a\<rparr>)
         (anomalies det)
     @ map (\<lambda>m. \<lparr>s_muni = ms_muni m, s_category = ms_category m,
                  s_metric_note = metric_note names (ms_metric m), s_type = ''Missing'',
                  s_value = Txt ''N/A'', s_note = missing_note names True m\<rparr>)
           (missing_data det)
     @ map (\<lambda>n. \<lparr>s_muni = nn_muni n, s_category = nn_category n,
                  s_metric_note = metric_note names (nn_metric n), s_type = ''Non-Numeric'',
                  s_value = nn_val n, s_note = non_numeric_note names True n\<rparr>)
           (non_numeric det)"

text \<open>
  \<^verbatim>\<open>summary_data.sort(key=lambda x: x[0])\<close>. Python compares the keys with \<^verbatim>\<open><\<close>:
  two texts by code points, two numbers by size, nan is below nothing and nothing is
  below nan, and a text against a float raises TypeError. \<^verbatim>\<open>list.sort\<close> is stable. The
  model inserts every element, from the last to the first, before the first element that
  is not below it. Where \<^verbatim>\<open><\<close> orders the keys totally this is the result of
  \<^verbatim>\<open>list.sort\<close>; a list of at least two keys that mixes texts and floats raises in
  both. The order that \<^verbatim>\<open>list.sort\<close> leaves among numbers and nan is not modelled.
\<close>

fun py_lt :: "cell \<Rightarrow> cell \<Rightarrow> py_error + bool" where
  "py_lt (Txt s) (Txt t) = Inr (s < t)"
| "py_lt (Txt s) b = Inl TypeError"
| "py_lt a (Txt t) = Inl TypeError"
| "py_lt (Num x) (Num y) = Inr (x < y)"
| "py_lt a b = Inr False"

fun insort_py :: "summary_row \<Rightarrow> summary_row list \<Rightarrow> py_error + summary_row list" where
  "insort_py x [] = Inr [x]"
| "insort_py x (y # ys) =
     (case py_lt (s_muni y) (s_muni x) of
        Inl e \<Rightarrow> Inl e
      | Inr False \<Rightarrow> Inr (x # y # ys)
      | Inr True \<Rightarrow> (case insort_py x ys of Inl e \<Rightarrow> Inl e | Inr zs \<Rightarrow> Inr (y # zs)))"

fun sort_py :: "summary_row list \<Rightarrow> py_error + summary_row list" where
  "sort_py [] = Inr []"
| "sort_py (x # xs) = (case sort_py xs of Inl e \<Rightarrow> Inl e | Inr ys \<Rightarrow> insort_py x ys)"

text \<open>The jurisdiction name of a summary row whose first component is a text.\<close>

fun cell_text :: "cell \<Rightarrow> string" where
  "cell_text (Txt s) = s"
| "cell_text (Num x) = []"
| "cell_text NaN = []"

section \<open>The run\<close>

text \<open>
  What \<^verbatim>\<open>run_anomaly_detection\<close> computes before it renders the workbook: the three
  event lists, the three dictionaries, the pivoted table and the sorted summary. Reading
  the file and writing the workbook are not modelled: \<open>df\<close> is the table that
  \<^verbatim>\<open>read_csv\<close> returned.
\<close>

record report =
  r_detection :: detection
  r_anomaly_dict :: "entity \<rightharpoonup> note_text"
  r_missing_dict :: "entity \<rightharpoonup> note_text"
  r_non_numeric_dict :: "entity \<rightharpoonup> note_text"
  r_pivot :: pivot
  r_summary :: "summary_row list"

definition run_anomaly_detection ::
  "(string \<Rightarrow> real option) \<Rightarrow> arith \<Rightarrow> (string \<Rightarrow> string) \<Rightarrow> (real \<Rightarrow> string) \<Rightarrow> dataframe
     \<Rightarrow> real \<Rightarrow> int \<Rightarrow> py_error + report" where
  "run_anomaly_detection pf ar pstrip fstr df threshold target_year =
     (case detect pf ar threshold target_year df of
        Inl e \<Rightarrow> Inl e
      | Inr det \<Rightarrow>
          let names = metric_names df;
              pivot_df = transform_data (metric_cols df) (df_detection df)
          in case sort_py (summary_data names det) of
               Inl e \<Rightarrow> Inl e
             | Inr summary \<Rightarrow>
                 Inr \<lparr>r_detection = det,
                      r_anomaly_dict = anomaly_dict pstrip fstr names (anomalies det),
                      r_missing_dict = missing_dict pstrip fstr names (missing_data det),
                      r_non_numeric_dict = non_numeric_dict pstrip fstr names (non_numeric det),
                      r_pivot = pivot_df,
                      r_summary = summary\<rparr>)"

text \<open>
  \<^verbatim>\<open>controller.handle_anomaly_detection\<close> turns the outcome into one of two messages.
\<close>

datatype message = Complete report | ErrorDuring py_error

definition handle_anomaly_detection ::
  "(string \<Rightarrow> real option) \<Rightarrow> arith \<Rightarrow> (string \<Rightarrow> string) \<Rightarrow> (real \<Rightarrow> string) \<Rightarrow> dataframe
     \<Rightarrow> real \<Rightarrow> int \<Rightarrow> message" where
  "handle_anomaly_detection pf ar pstrip fstr df threshold target_year =
     (case run_anomaly_detection pf ar pstrip fstr df threshold target_year of
        Inl e \<Rightarrow> ErrorDuring e
      | Inr rep \<Rightarrow> Complete rep)"

text \<open>
  \<^verbatim>\<open>AnomalyDetectorApp.run_detection\<close>: the checks on the fields of the window, then the
  run. The threshold field goes through \<^verbatim>\<open>float\<close>, the year field through \<^verbatim>\<open>int\<close> (the
  parameter \<open>pint\<close>, \<open>None\<close> where \<^verbatim>\<open>int\<close> raises ValueError). An error box is shown and
  nothing runs when a check fails.
\<close>

datatype gui_error = SelectCsvFile | SelectOutputLocation | EnterValidNumbers

definition run_detection ::
  "(string \<Rightarrow> real option) \<Rightarrow> (string \<Rightarrow> int option) \<Rightarrow> arith \<Rightarrow> (string \<Rightarrow> string)
     \<Rightarrow> (real \<Rightarrow> string) \<Rightarrow> dataframe \<Rightarrow> string \<Rightarrow> string option \<Rightarrow> string \<Rightarrow> string
     \<Rightarrow> gui_error + message" where
  "run_detection pf pint ar pstrip fstr df csv_path output_path threshold target_year =
     (if csv_path = [] then Inl SelectCsvFile
      else if output_path = None \<or> output_path = Some [] then Inl SelectOutputLocation
      else case pf threshold of
             None \<Rightarrow> Inl EnterValidNumbers
           | Some t \<Rightarrow>
               (case pint target_year of
                  None \<Rightarrow> Inl EnterValidNumbers
                | Some y \<Rightarrow> Inr (handle_anomaly_detection pf ar pstrip fstr df t y)))"

section \<open>Values for concrete runs\<close>

text \<open>
  A parser for concrete runs: it reads the texts made of decimal digits, as \<^verbatim>\<open>float\<close>
  and \<^verbatim>\<open>int\<close> do, and fails on every other text. It stands for the two builtins only on
  the texts of the examples below (digit strings and the word \<^verbatim>\<open>abc\<close>).
\<close>

definition digit_value :: "char \<Rightarrow> nat option" where
  "digit_value c = (if CHR ''0'' \<le> c \<and> c \<le> CHR ''9'' then Some (of_char c - 48) else None)"

fun digits_value :: "nat \<Rightarrow> string \<Rightarrow> nat option" where
  "digits_value n [] = Some n"
| "digits_value n (c # cs) =
     (case digit_value c of None \<Rightarrow> None | Some d \<Rightarrow> digits_value (10 * n + d) cs)"

definition float_of_digits :: "string \<Rightarrow> real option" where
  "float_of_digits s = (if s = [] then None else map_option real (digits_value 0 s))"

definition int_of_digits :: "string \<Rightarrow> int option" where
  "int_of_digits s = (if s = [] then None else map_option int (digits_value 0 s))"

text \<open>
  An arithmetic for concrete runs: it does not round. A correctly rounded arithmetic
  returns the same results wherever these are floats themselves, as on the histories
  10, 10, 10 and 10, 30 below. Division by zero gives an infinity or nan, as numpy does.
\<close>

fun exact_sub :: "real \<Rightarrow> float64 \<Rightarrow> float64" where
  "exact_sub v (Finite m) = Finite (v - m)"
| "exact_sub v PosInf = NegInf"
| "exact_sub v NegInf = PosInf"
| "exact_sub v NotANumber = NotANumber"

fun exact_div :: "float64 \<Rightarrow> float64 \<Rightarrow> float64" where
  "exact_div (Finite a) (Finite b) =
     (if b \<noteq> 0 then Finite (a / b)
      else if a = 0 then NotANumber else if 0 < a then PosInf else NegInf)"
| "exact_div NotANumber b = NotANumber"
| "exact_div a NotANumber = NotANumber"
| "exact_div (Finite a) b = Finite 0"
| "exact_div PosInf (Finite b) = (if 0 \<le> b then PosInf else NegInf)"
| "exact_div NegInf (Finite b) = (if 0 \<le> b then NegInf else PosInf)"
| "exact_div a b = NotANumber"

definition exact_arith :: arith where
  "exact_arith =
     \<lparr>np_mean = (\<lambda>xs. if xs = [] then NotANumber else Finite (exact_mean xs)),
      np_std = (\<lambda>xs. if xs = [] then NotANumber else Finite (exact_std xs)),
      f_sub = exact_sub, f_div = exact_div\<rparr>"

text \<open>
  What IEEE 754 double arithmetic returns, in numpy's order of operations, on the
  history 0.1, 0.1, 0.1 and the value 0.2. \<open>tenth\<close> is the double that \<^verbatim>\<open>0.1\<close> reads as,
  and \<open>2 * tenth\<close> the one that \<^verbatim>\<open>0.2\<close> reads as. The sum of the three is rounded, so the
  mean is one unit in the last place above \<open>tenth\<close>; the deviations from it, their
  squares, the variance and its root are exact.
\<close>

definition tenth :: real where
  "tenth = 3602879701896397 / 2 ^ 55"

definition ieee_on_tenths :: "arith \<Rightarrow> bool" where
  "ieee_on_tenths ar =
     (np_mean ar [tenth, tenth, tenth] = Finite (tenth + 1 / 2 ^ 56)
      \<and> np_std ar [tenth, tenth, tenth] = Finite (1 / 2 ^ 56)
      \<and> f_sub ar (2 * tenth) (Finite (tenth + 1 / 2 ^ 56)) = Finite (7205759403792793 / 2 ^ 56)
      \<and> f_div ar (Finite (7205759403792793 / 2 ^ 56)) (Finite (1 / 2 ^ 56))
          = Finite 7205759403792793)"

text \<open>
  A \<^verbatim>\<open>strip\<close> for concrete runs: it removes the ASCII white space, as \<^verbatim>\<open>str.strip()\<close>
  does on a text of ASCII characters.
\<close>

definition ascii_space :: "char \<Rightarrow> bool" where
  "ascii_space c = (of_char c \<in> {9, 10, 11, 12, 13, 28, 29, 30, 31, 32 :: nat})"

definition ascii_strip :: "string \<Rightarrow> string" where
  "ascii_strip s = rev (dropWhile ascii_space (rev (dropWhile ascii_space s)))"

text \<open>A row with the listed metric values, every other metric missing.\<close>

definition obs :: "cell \<Rightarrow> cell \<Rightarrow> cell \<Rightarrow> (string \<times> cell) list \<Rightarrow> row" where
  "obs y m c vs = \<lparr>a_fiscal_year = y, a_jurisdiction = m, a_service = c,
                   metric_value = (\<lambda>k. case map_of vs k of None \<Rightarrow> NaN | Some v \<Rightarrow> v)\<rparr>"

text \<open>
  A table with the single metric \<^verbatim>\<open>m1\<close>, jurisdiction \<^verbatim>\<open>A\<close> and category \<^verbatim>\<open>c\<close> on
  every row, and one row per listed pair of year and value.
\<close>

definition series_df :: "(cell \<times> cell) list \<Rightarrow> dataframe" where
  "series_df yvs = \<lparr>header = [(''m1'', ''Metric one'')],
                    body = map (\<lambda>(y, v). obs y (Txt ''A'') (Txt ''c'') [(''m1'', v)]) yvs\<rparr>"

section \<open>The outcomes of the loop, in its order\<close>






text \<open>
  A table with the single metric \<^verbatim>\<open>m1\<close> and one row per listed year, jurisdiction,
  category and value.
\<close>

definition table_df :: "(cell \<times> cell \<times> cell \<times> cell) list \<Rightarrow> dataframe" where
  "table_df rs = \<lparr>header = [(''m1'', ''Metric one'')],
                   body = map (\<lambda>(y, j, c, v). obs y j c [(''m1'', v)]) rs\<rparr>"

section \<open>What the loop appends\<close>

lemma record_outcome_anomalies:
  "set (anomalies (record_outcome oc d)) = set (anomalies d) \<union> {a. oc = IsAnomaly a}"
  by (cases oc) auto

lemma record_outcome_missing:
  "set (missing_data (record_outcome oc d)) = set (missing_data d) \<union> {a. oc = IsMissing a}"
  by (cases oc) auto

lemma record_outcome_non_numeric:
  "set (non_numeric (record_outcome oc d)) = set (non_numeric d) \<union> {a. oc = IsNonNumeric a}"
  by (cases oc) auto

lemma detect_rows_returns:
  "detect_rows pf ar t ty cols dfd m rows d = Inr d' \<Longrightarrow> ir \<in> set rows \<Longrightarrow>
     \<exists>oc. classify_cell pf ar t ty cols dfd m ir = Inr oc"
  by (induction rows arbitrary: d) (auto split: sum.splits)

lemma detect_rows_anomalies:
  "detect_rows pf ar t ty cols dfd m rows d = Inr d' \<Longrightarrow>
     set (anomalies d') = set (anomalies d) \<union>
       {a. \<exists>ir \<in> set rows. classify_cell pf ar t ty cols dfd m ir = Inr (IsAnomaly a)}"
proof (induction rows arbitrary: d)
  case Nil
  then show ?case by simp
next
  case (Cons ir rows)
  then obtain oc where oc: "classify_cell pf ar t ty cols dfd m ir = Inr oc"
    and rest: "detect_rows pf ar t ty cols dfd m rows (record_outcome oc d) = Inr d'"
    by (auto split: sum.splits)
  from Cons.IH [OF rest] oc show ?case
    by (auto simp: record_outcome_anomalies)
qed

lemma detect_rows_missing:
  "detect_rows pf ar t ty cols dfd m rows d = Inr d' \<Longrightarrow>
     set (missing_data d') = set (missing_data d) \<union>
       {a. \<exists>ir \<in> set rows. classify_cell pf ar t ty cols dfd m ir = Inr (IsMissing a)}"
proof (induction rows arbitrary: d)
  case Nil
  then show ?case by simp
next
  case (Cons ir rows)
  then obtain oc where oc: "classify_cell pf ar t ty cols dfd m ir = Inr oc"
    and rest: "detect_rows pf ar t ty cols dfd m rows (record_outcome oc d) = Inr d'"
    by (auto split: sum.splits)
  from Cons.IH [OF rest] oc show ?case
    by (auto simp: record_outcome_missing)
qed

lemma detect_rows_non_numeric:
  "detect_rows pf ar t ty cols dfd m rows d = Inr d' \<Longrightarrow>
     set (non_numeric d') = set (non_numeric d) \<union>
       {a. \<exists>ir \<in> set rows. classify_cell pf ar t ty cols dfd m ir = Inr (IsNonNumeric a)}"
proof (induction rows arbitrary: d)
  case Nil
  then show ?case by simp
next
  case (Cons ir rows)
  then obtain oc where oc: "classify_cell pf ar t ty cols dfd m ir = Inr oc"
    and rest: "detect_rows pf ar t ty cols dfd m rows (record_outcome oc d) = Inr d'"
    by (auto split: sum.splits)
  from Cons.IH [OF rest] oc show ?case
    by (auto simp: record_outcome_non_numeric)
qed

lemma detect_metrics_returns:
  "detect_metrics pf ar t ty cols dfd ms d = Inr d' \<Longrightarrow> m \<in> set ms \<Longrightarrow> ir \<in> set dfd \<Longrightarrow>
     \<exists>oc. classify_cell pf ar t ty cols dfd m ir = Inr oc"
proof (induction ms arbitrary: d)
  case Nil
  then show ?case by simp
next
  case (Cons m' ms)
  then obtain d1 where d1: "detect_rows pf ar t ty cols dfd m' dfd d = Inr d1"
    and rest: "detect_metrics pf ar t ty cols dfd ms d1 = Inr d'"
    by (auto split: sum.splits)
  show ?case
  proof (cases "m = m'")
    case True
    with detect_rows_returns [OF d1] Cons.prems(3) show ?thesis by simp
  next
    case False
    with Cons.prems(2) have "m \<in> set ms" by simp
    from Cons.IH [OF rest this Cons.prems(3)] show ?thesis .
  qed
qed

lemma detect_metrics_anomalies:
  "detect_metrics pf ar t ty cols dfd ms d = Inr d' \<Longrightarrow>
     set (anomalies d') = set (anomalies d) \<union>
       {a. \<exists>m \<in> set ms. \<exists>ir \<in> set dfd. classify_cell pf ar t ty cols dfd m ir = Inr (IsAnomaly a)}"
proof (induction ms arbitrary: d)
  case Nil
  then show ?case by simp
next
  case (Cons m' ms)
  then obtain d1 where d1: "detect_rows pf ar t ty cols dfd m' dfd d = Inr d1"
    and rest: "detect_metrics pf ar t ty cols dfd ms d1 = Inr d'"
    by (auto split: sum.splits)
  from Cons.IH [OF rest] detect_rows_anomalies [OF d1] show ?case
    by auto
qed

lemma detect_metrics_missing:
  "detect_metrics pf ar t ty cols dfd ms d = Inr d' \<Longrightarrow>
     set (missing_data d') = set (missing_data d) \<union>
       {a. \<exists>m \<in> set ms. \<exists>ir \<in> set dfd. classify_cell pf ar t ty cols dfd m ir = Inr (IsMissing a)}"
proof (induction ms arbitrary: d)
  case Nil
  then show ?case by simp
next
  case (Cons m' ms)
  then obtain d1 where d1: "detect_rows pf ar t ty cols dfd m' dfd d = Inr d1"
    and rest: "detect_metrics pf ar t ty cols dfd ms d1 = Inr d'"
    by (auto split: sum.splits)
  from Cons.IH [OF rest] detect_rows_missing [OF d1] show ?case
    by auto
qed

lemma detect_metrics_non_numeric:
  "detect_metrics pf ar t ty cols dfd ms d = Inr d' \<Longrightarrow>
     set (non_numeric d') = set (non_numeric d) \<union>
       {a. \<exists>m \<in> set ms. \<exists>ir \<in> set dfd. classify_cell pf ar t ty cols dfd m ir = Inr (IsNonNumeric a)}"
proof (induction ms arbitrary: d)
  case Nil
  then show ?case by simp
next
  case (Cons m' ms)
  then obtain d1 where d1: "detect_rows pf ar t ty cols dfd m' dfd d = Inr d1"
    and rest: "detect_metrics pf ar t ty cols dfd ms d1 = Inr d'"
    by (auto split: sum.splits)
  from Cons.IH [OF rest] detect_rows_non_numeric [OF d1] show ?case
    by auto
qed

section \<open>The history and the outcome of one cell\<close>

lemma index_of_nth: "m \<in> set xs \<Longrightarrow> xs ! index_of m xs = m"
  by (induction xs) auto

lemma index_of_inj:
  "m \<in> set xs \<Longrightarrow> m' \<in> set xs \<Longrightarrow> index_of m xs = index_of m' xs \<Longrightarrow> m = m'"
  by (metis index_of_nth)

lemma get_loc_inj:
  "m \<in> set cols \<Longrightarrow> m' \<in> set cols \<Longrightarrow> get_loc cols m = get_loc cols m' \<Longrightarrow> m = m'"
  by (simp add: get_loc_def index_of_inj)

lemma df_detection_distinct: "distinct (map fst (df_detection df))"
  by (simp add: df_detection_def distinct_map_filter)

lemma frame_unique:
  "distinct (map fst dfd) \<Longrightarrow> (i, r) \<in> set dfd \<Longrightarrow> (i, r') \<in> set dfd \<Longrightarrow> r = r'"
  by (meson eq_key_imp_eq_value)

lemma df_detection_category: "(i, r) \<in> set (df_detection df) \<Longrightarrow> \<not> isna (a_service r)"
  by (auto simp: df_detection_def)

lemma cell_eq_imp_eq: "cell_eq a b \<Longrightarrow> a = b"
  by (cases a; cases b) auto

lemma cell_eq_notna: "cell_eq a b \<Longrightarrow> \<not> isna a \<and> \<not> isna b"
  by (cases a; cases b) auto

lemma num_lt_Num: "num_lt c y \<Longrightarrow> \<exists>x. c = Num x \<and> x < y"
  by (cases c) auto

lemma py_float_Some_notna: "py_float pf c = Inr (Some v) \<Longrightarrow> \<not> isna c"
  by (cases c) auto

lemma py_float_isl_notna: "isl (py_float pf c) \<Longrightarrow> \<not> isna c"
  by (cases c) auto

lemma cell_history_eq:
  "cell_history dfd ty r m = Inr hrows \<Longrightarrow>
     hrows = filter (\<lambda>(idx, h). \<not> isna (metric_value h m)) (earlier_rows dfd ty r)"
  unfolding cell_history_def hist_rows_def earlier_rows_def
  by (auto split: if_splits simp: filter_eq_iff intro!: filter_cong dest: num_lt_Num cell_eq_notna)

lemma historical_data_filter_notna:
  "historical_data pf (filter (\<lambda>(idx, h). \<not> isna (metric_value h m)) rows) m =
     historical_data pf rows m"
proof -
  have a: "list_ex isl (map (\<lambda>(idx, h). py_float pf (metric_value h m))
             (filter (\<lambda>(idx, h). \<not> isna (metric_value h m)) rows))
        = list_ex isl (map (\<lambda>(idx, h). py_float pf (metric_value h m)) rows)"
    by (induction rows) (auto dest: py_float_isl_notna)
  have b: "concat (map (\<lambda>v. case v of Inr (Some x) \<Rightarrow> [x] | _ \<Rightarrow> [])
             (map (\<lambda>(idx, h). py_float pf (metric_value h m))
               (filter (\<lambda>(idx, h). \<not> isna (metric_value h m)) rows)))
        = concat (map (\<lambda>v. case v of Inr (Some x) \<Rightarrow> [x] | _ \<Rightarrow> [])
             (map (\<lambda>(idx, h). py_float pf (metric_value h m)) rows))"
  proof (induction rows)
    case Nil
    show ?case by simp
  next
    case (Cons ih rows)
    obtain i h where ih: "ih = (i, h)" by (cases ih)
    show ?case using Cons by (cases "metric_value h m") (simp_all add: ih)
  qed
  show ?thesis unfolding historical_data_def Let_def a b ..
qed

lemma historical_data_spec:
  assumes "cell_history dfd ty r m = Inr hrows"
  shows "historical_data pf hrows m =
           (if history_unparseable pf dfd ty r m then [] else spec_historical_series pf dfd ty r m)"
proof -
  have "historical_data pf hrows m = historical_data pf (earlier_rows dfd ty r) m"
    using cell_history_eq [OF assms] historical_data_filter_notna by simp
  also have "\<dots> = (if history_unparseable pf dfd ty r m then []
                     else spec_historical_series pf dfd ty r m)"
    by (simp add: historical_data_def history_unparseable_def spec_historical_series_def
        list_ex_iff split_def comp_def)
  finally show ?thesis .
qed

lemma classify_cell_anomaly:
  assumes "classify_cell pf ar t ty cols dfd m (i, r) = Inr (IsAnomaly a)"
  shows "an_excel_row a = i + 2" and "an_excel_col a = get_loc cols m + 1"
    and "an_year a = a_fiscal_year r" and "an_muni a = a_jurisdiction r"
    and "an_category a = a_service r" and "an_metric a = m"
    and "py_float pf (a_fiscal_year r) = Inr (Some (of_int ty))"
  using assms
  by (auto simp: classify_cell_def Let_def split: sum.splits if_splits option.splits)

lemma classify_cell_missing:
  assumes "classify_cell pf ar t ty cols dfd m (i, r) = Inr (IsMissing a)"
  shows "ms_excel_row a = i + 2" and "ms_excel_col a = get_loc cols m + 1"
    and "ms_year a = a_fiscal_year r" and "ms_muni a = a_jurisdiction r"
    and "ms_category a = a_service r" and "ms_metric a = m"
    and "py_float pf (a_fiscal_year r) = Inr (Some (of_int ty))"
  using assms
  by (auto simp: classify_cell_def Let_def split: sum.splits if_splits option.splits)

lemma classify_cell_non_numeric:
  assumes "classify_cell pf ar t ty cols dfd m (i, r) = Inr (IsNonNumeric a)"
  shows "nn_excel_row a = i + 2" and "nn_excel_col a = get_loc cols m + 1"
    and "nn_year a = a_fiscal_year r" and "nn_muni a = a_jurisdiction r"
    and "nn_category a = a_service r" and "nn_metric a = m"
    and "py_float pf (a_fiscal_year r) = Inr (Some (of_int ty))"
    and "nn_val a = metric_value r m"
  using assms
  by (auto simp: classify_cell_def Let_def split: sum.splits if_splits option.splits)

text \<open>The body of the loop on a cell of the target year with a numeric value.\<close>

lemma classify_cell_numeric:
  assumes "py_float pf (a_fiscal_year r) = Inr (Some (of_int ty))"
    and "py_float pf (metric_value r m) = Inr (Some v)"
    and "cell_history dfd ty r m = Inr hrows"
  shows "classify_cell pf ar t ty cols dfd m (i, r) =
           (if 2 \<le> length (historical_data pf hrows m)
               \<and> f_gt (f_abs (z_score ar v (historical_data pf hrows m))) t
            then Inr (IsAnomaly \<lparr>an_excel_row = i + 2, an_excel_col = get_loc cols m + 1,
                   an_current_val = v, an_mean = np_mean ar (historical_data pf hrows m),
                   an_std_dev = np_std ar (historical_data pf hrows m),
                   an_z_score = z_score ar v (historical_data pf hrows m),
                   an_year = a_fiscal_year r, an_muni = a_jurisdiction r,
                   an_category = a_service r, an_metric = m,
                   an_hist_comment = hist_comment hrows m\<rparr>)
            else Inr NoEvent)"
  using assms py_float_Some_notna [OF assms(2)]
  by (simp add: classify_cell_def Let_def not_le)

lemma classify_cell_absent:
  assumes "py_float pf (a_fiscal_year r) = Inr (Some (of_int ty))"
    and "isna (metric_value r m)"
    and "cell_history dfd ty r m = Inr hrows"
  shows "classify_cell pf ar t ty cols dfd m (i, r) =
           (if historical_data pf hrows m \<noteq> []
            then Inr (IsMissing \<lparr>ms_excel_row = i + 2, ms_excel_col = get_loc cols m + 1,
                   ms_year = a_fiscal_year r, ms_muni = a_jurisdiction r,
                   ms_category = a_service r, ms_metric = m,
                   ms_hist_comment = hist_comment hrows m\<rparr>)
            else Inr NoEvent)"
  using assms
  by (simp add: classify_cell_def Let_def)

lemma classify_cell_reaches_history:
  assumes "py_float pf (a_fiscal_year r) = Inr (Some (of_int ty))"
    and "\<not> isl (py_float pf (metric_value r m))"
    and "classify_cell pf ar t ty cols dfd m (i, r) = Inr oc"
  shows "\<exists>hrows. cell_history dfd ty r m = Inr hrows"
  using assms
  by (cases "cell_history dfd ty r m"; cases "py_float pf (metric_value r m)")
     (auto simp: classify_cell_def Let_def split: if_splits)

text \<open>The events of a completed detection, cell by cell.\<close>

lemma detect_returns:
  assumes "detect pf ar t ty df = Inr det"
    and "m \<in> set (metric_cols df)" and "ir \<in> set (df_detection df)"
  shows "\<exists>oc. classify_cell pf ar t ty (metric_cols df) (df_detection df) m ir = Inr oc"
  using assms unfolding detect_def by (rule detect_metrics_returns)

lemma detect_anomalies:
  assumes "detect pf ar t ty df = Inr det"
  shows "set (anomalies det) = {a. \<exists>m \<in> set (metric_cols df). \<exists>ir \<in> set (df_detection df).
           classify_cell pf ar t ty (metric_cols df) (df_detection df) m ir = Inr (IsAnomaly a)}"
  using detect_metrics_anomalies [OF assms [unfolded detect_def]] by simp

lemma detect_missing:
  assumes "detect pf ar t ty df = Inr det"
  shows "set (missing_data det) = {a. \<exists>m \<in> set (metric_cols df). \<exists>ir \<in> set (df_detection df).
           classify_cell pf ar t ty (metric_cols df) (df_detection df) m ir = Inr (IsMissing a)}"
  using detect_metrics_missing [OF assms [unfolded detect_def]] by simp

lemma detect_non_numeric:
  assumes "detect pf ar t ty df = Inr det"
  shows "set (non_numeric det) = {a. \<exists>m \<in> set (metric_cols df). \<exists>ir \<in> set (df_detection df).
           classify_cell pf ar t ty (metric_cols df) (df_detection df) m ir = Inr (IsNonNumeric a)}"
  using detect_metrics_non_numeric [OF assms [unfolded detect_def]] by simp








text \<open>An event on a cell is the outcome of the loop body on that cell.\<close>

lemma anomaly_at_iff:
  assumes det: "detect pf ar t ty df = Inr det"
    and ir: "(i, r) \<in> set (df_detection df)" and m: "m \<in> set (metric_cols df)"
  shows "anomaly_at det (metric_cols df) i m \<longleftrightarrow>
           (\<exists>a. classify_cell pf ar t ty (metric_cols df) (df_detection df) m (i, r) = Inr (IsAnomaly a))"
proof
  assume "anomaly_at det (metric_cols df) i m"
  then obtain a where a: "a \<in> set (anomalies det)" and row: "an_excel_row a = i + 2"
    and col: "an_excel_col a = get_loc (metric_cols df) m + 1"
    by (auto simp: anomaly_at_def list_ex_iff)
  from a obtain m' i' r' where m': "m' \<in> set (metric_cols df)"
    and ir': "(i', r') \<in> set (df_detection df)"
    and c: "classify_cell pf ar t ty (metric_cols df) (df_detection df) m' (i', r') = Inr (IsAnomaly a)"
    unfolding detect_anomalies [OF det] by auto
  from classify_cell_anomaly(1,2) [OF c] row col
  have "i' = i" and "get_loc (metric_cols df) m' = get_loc (metric_cols df) m" by simp_all
  with m m' have "m' = m" by (simp add: get_loc_inj)
  moreover from ir ir' \<open>i' = i\<close> have "r' = r"
    using frame_unique [OF df_detection_distinct] by blast
  ultimately show "\<exists>a. classify_cell pf ar t ty (metric_cols df) (df_detection df) m (i, r) = Inr (IsAnomaly a)"
    using c \<open>i' = i\<close> by auto
next
  assume "\<exists>a. classify_cell pf ar t ty (metric_cols df) (df_detection df) m (i, r) = Inr (IsAnomaly a)"
  then obtain a where c: "classify_cell pf ar t ty (metric_cols df) (df_detection df) m (i, r) = Inr (IsAnomaly a)" ..
  with ir m have "a \<in> set (anomalies det)"
    unfolding detect_anomalies [OF det] by auto
  with classify_cell_anomaly(1,2) [OF c] show "anomaly_at det (metric_cols df) i m"
    by (auto simp: anomaly_at_def list_ex_iff)
qed

lemma missing_at_iff:
  assumes det: "detect pf ar t ty df = Inr det"
    and ir: "(i, r) \<in> set (df_detection df)" and m: "m \<in> set (metric_cols df)"
  shows "missing_at det (metric_cols df) i m \<longleftrightarrow>
           (\<exists>a. classify_cell pf ar t ty (metric_cols df) (df_detection df) m (i, r) = Inr (IsMissing a))"
proof
  assume "missing_at det (metric_cols df) i m"
  then obtain a where a: "a \<in> set (missing_data det)" and row: "ms_excel_row a = i + 2"
    and col: "ms_excel_col a = get_loc (metric_cols df) m + 1"
    by (auto simp: missing_at_def list_ex_iff)
  from a obtain m' i' r' where m': "m' \<in> set (metric_cols df)"
    and ir': "(i', r') \<in> set (df_detection df)"
    and c: "classify_cell pf ar t ty (metric_cols df) (df_detection df) m' (i', r') = Inr (IsMissing a)"
    unfolding detect_missing [OF det] by auto
  from classify_cell_missing(1,2) [OF c] row col
  have "i' = i" and "get_loc (metric_cols df) m' = get_loc (metric_cols df) m" by simp_all
  with m m' have "m' = m" by (simp add: get_loc_inj)
  moreover from ir ir' \<open>i' = i\<close> have "r' = r"
    using frame_unique [OF df_detection_distinct] by blast
  ultimately show "\<exists>a. classify_cell pf ar t ty (metric_cols df) (df_detection df) m (i, r) = Inr (IsMissing a)"
    using c \<open>i' = i\<close> by auto
next
  assume "\<exists>a. classify_cell pf ar t ty (metric_cols df) (df_detection df) m (i, r) = Inr (IsMissing a)"
  then obtain a where c: "classify_cell pf ar t ty (metric_cols df) (df_detection df) m (i, r) = Inr (IsMissing a)" ..
  with ir m have "a \<in> set (missing_data det)"
    unfolding detect_missing [OF det] by auto
  with classify_cell_missing(1,2) [OF c] show "missing_at det (metric_cols df) i m"
    by (auto simp: missing_at_def list_ex_iff)
qed

lemma non_numeric_at_iff:
  assumes det: "detect pf ar t ty df = Inr det"
    and ir: "(i, r) \<in> set (df_detection df)" and m: "m \<in> set (metric_cols df)"
  shows "non_numeric_at det (metric_cols df) i m \<longleftrightarrow>
           (\<exists>a. classify_cell pf ar t ty (metric_cols df) (df_detection df) m (i, r) = Inr (IsNonNumeric a))"
proof
  assume "non_numeric_at det (metric_cols df) i m"
  then obtain a where a: "a \<in> set (non_numeric det)" and row: "nn_excel_row a = i + 2"
    and col: "nn_excel_col a = get_loc (metric_cols df) m + 1"
    by (auto simp: non_numeric_at_def list_ex_iff)
  from a obtain m' i' r' where m': "m' \<in> set (metric_cols df)"
    and ir': "(i', r') \<in> set (df_detection df)"
    and c: "classify_cell pf ar t ty (metric_cols df) (df_detection df) m' (i', r') = Inr (IsNonNumeric a)"
    unfolding detect_non_numeric [OF det] by auto
  from classify_cell_non_numeric(1,2) [OF c] row col
  have "i' = i" and "get_loc (metric_cols df) m' = get_loc (metric_cols df) m" by simp_all
  with m m' have "m' = m" by (simp add: get_loc_inj)
  moreover from ir ir' \<open>i' = i\<close> have "r' = r"
    using frame_unique [OF df_detection_distinct] by blast
  ultimately show "\<exists>a. classify_cell pf ar t ty (metric_cols df) (df_detection df) m (i, r) = Inr (IsNonNumeric a)"
    using c \<open>i' = i\<close> by auto
next
  assume "\<exists>a. classify_cell pf ar t ty (metric_cols df) (df_detection df) m (i, r) = Inr (IsNonNumeric a)"
  then obtain a where c: "classify_cell pf ar t ty (metric_cols df) (df_detection df) m (i, r) = Inr (IsNonNumeric a)" ..
  with ir m have "a \<in> set (non_numeric det)"
    unfolding detect_non_numeric [OF det] by auto
  with classify_cell_non_numeric(1,2) [OF c] show "non_numeric_at det (metric_cols df) i m"
    by (auto simp: non_numeric_at_def list_ex_iff)
qed

section \<open>The classifier\<close>

lemmas eval_frame = df_detection_def series_df_def obs_def metric_cols_def enumerate_eq_zip upt_rec

lemmas eval_parse = float_of_digits_def digit_value_def less_eq_char_def

lemmas eval_cell = classify_cell_def cell_history_def hist_rows_def historical_data_def
  hist_comment_def get_loc_def Let_def

lemmas eval_spec = spec_historical_series_def history_unparseable_def earlier_rows_def

text \<open>The exact statistics of the histories of the concrete runs.\<close>

lemma exact_mean_10_20_30: "exact_mean [10, 20, 30] = 20"
  by (simp add: exact_mean_def)

lemma exact_std_10_20_30: "exact_std [10, 20, 30] = sqrt (200 / 3)"
  by (simp add: exact_std_def exact_mean_def)

lemma sqrt_200_3: "8 < sqrt (200 / 3)" "sqrt (200 / 3) < 9"
proof -
  have "sqrt (8\<^sup>2) < sqrt (200 / 3)" by (rule real_sqrt_less_mono) simp
  then show "8 < sqrt (200 / 3)" by simp
  have "sqrt (200 / 3) < sqrt (9\<^sup>2)" by (rule real_sqrt_less_mono) simp
  then show "sqrt (200 / 3) < 9" by simp
qed

lemma exact_z_score_40: "1 < \<bar>exact_z_score 40 [10, 20, 30]\<bar>"
proof -
  have "1 < 20 / sqrt (200 / 3)"
    using sqrt_200_3 by (simp add: pos_less_divide_eq)
  then show ?thesis
    by (simp add: exact_z_score_def exact_mean_10_20_30 exact_std_10_20_30)
qed

lemma exact_mean_10_30: "exact_mean [10, 30] = 20"
  by (simp add: exact_mean_def)

lemma exact_std_10_30: "exact_std [10, 30] = 10"
proof -
  have "exact_std [10, 30] = sqrt (10\<^sup>2)"
    by (simp add: exact_std_def exact_mean_def)
  then show ?thesis by simp
qed

lemma exact_std_10_10_10: "exact_std [10, 10, 10] = 0"
  by (simp add: exact_std_def exact_mean_def)

lemma exact_arith_10_30:
  "np_mean exact_arith [10, 30] = Finite 20"
  "np_std exact_arith [10, 30] = Finite 10"
  "z_score exact_arith 40 [10, 30] = Finite 2"
  "z_score exact_arith 25 [10, 30] = Finite (1 / 2)"
  by (simp_all add: exact_arith_def z_score_def exact_mean_10_30 exact_std_10_30)

lemma exact_arith_10_10_10:
  "np_mean exact_arith [10, 10, 10] = Finite 10"
  "np_std exact_arith [10, 10, 10] = Finite 0"
  "z_score exact_arith v [10, 10, 10] = Finite 0"
  by (simp_all add: exact_arith_def z_score_def exact_std_10_10_10 exact_mean_def)

text \<open>
  With an arithmetic that is within 1/100 of the exact results, the z-score of 40 against
  10, 20, 30 is above 1 and that of 22 is not.
\<close>

lemma z_score_accurate_40:
  assumes "accurate_at ar 40 [10, 20, 30] (1 / 100)"
  shows "f_gt (f_abs (z_score ar 40 [10, 20, 30])) 1"
proof -
  from assms obtain m s d q where m: "np_mean ar [10, 20, 30] = Finite m" "\<bar>m - 20\<bar> \<le> 1 / 100"
    and s: "np_std ar [10, 20, 30] = Finite s" "\<bar>s - sqrt (200 / 3)\<bar> \<le> 1 / 100"
    and d: "f_sub ar 40 (Finite m) = Finite d" "\<bar>d - (40 - m)\<bar> \<le> 1 / 100"
    and q: "f_div ar (Finite d) (Finite s) = Finite q" "\<bar>q - d / s\<bar> \<le> 1 / 100"
    unfolding accurate_at_def exact_mean_10_20_30 exact_std_10_20_30 by blast
  from s(2) sqrt_200_3 have sb: "7 < s" "s < 19 / 2" by linarith+
  from m(2) d(2) have db: "19 < d" by linarith
  from sb db have "2 * s < d" by linarith
  with sb have "2 < d / s" by (simp add: pos_less_divide_eq)
  with q(2) have "1 < q" by linarith
  moreover from sb have "s \<noteq> 0" by simp
  ultimately show ?thesis
    by (simp add: z_score_def m s d q)
qed

lemma z_score_accurate_22:
  assumes "accurate_at ar 22 [10, 20, 30] (1 / 100)"
  shows "\<not> f_gt (f_abs (z_score ar 22 [10, 20, 30])) 1"
proof -
  from assms obtain m s d q where m: "np_mean ar [10, 20, 30] = Finite m" "\<bar>m - 20\<bar> \<le> 1 / 100"
    and s: "np_std ar [10, 20, 30] = Finite s" "\<bar>s - sqrt (200 / 3)\<bar> \<le> 1 / 100"
    and d: "f_sub ar 22 (Finite m) = Finite d" "\<bar>d - (22 - m)\<bar> \<le> 1 / 100"
    and q: "f_div ar (Finite d) (Finite s) = Finite q" "\<bar>q - d / s\<bar> \<le> 1 / 100"
    unfolding accurate_at_def exact_mean_10_20_30 exact_std_10_20_30 by blast
  from s(2) sqrt_200_3 have sb: "7 < s" "s < 10" by linarith+
  from m(2) d(2) have db: "1 < d" "d < 3" by linarith+
  from sb db have "d < s / 2" by linarith
  with sb have "d / s < 1 / 2" by (simp add: pos_divide_less_eq)
  moreover from sb db have "0 < d / s" by simp
  ultimately have "\<bar>q\<bar> < 1" using q(2) by linarith
  moreover from sb have "s \<noteq> 0" by simp
  ultimately show ?thesis
    by (simp add: z_score_def m s d q)
qed

lemma exact_arith_accurate: "accurate_at exact_arith v [10, 20, 30] (1 / 100)"
proof -
  have "sqrt (200 / 3) \<noteq> 0" using sqrt_200_3 by linarith
  then show ?thesis
    unfolding accurate_at_def
    by (simp add: exact_arith_def exact_mean_10_20_30 exact_std_10_20_30)
qed

text \<open>
  Claim C1, as amended. The detection has completed. For a row of the detection set whose
  year equals the target year and whose value under a metric parses as the number \<open>v\<close>,
  and when no earlier value of the same jurisdiction and category fails to parse:
  with at least 2 points in the historical series, an Anomaly sits on the cell if and
  only if the absolute value of the z-score that the program computes in floating point
  (the value minus numpy's mean of the series, divided by numpy's population standard
  deviation of the series, and 0 when that computed deviation compares equal to 0) is
  above the threshold; with fewer than 2 points no Anomaly sits on it; and neither a
  Missing nor a NonNumeric event ever sits on it. For the history 10, 20, 30 and the
  threshold 1, with every arithmetic that is within 1/100 of the exact results, the
  computed z-score of 40 is above the threshold and that of 22 is not.
\<close>

theorem anomaly_iff_z_score_above_threshold:
  assumes det: "detect pf ar threshold target_year df = Inr det"
    and ir: "(idx, r) \<in> set (df_detection df)"
    and m: "metric \<in> set (metric_cols df)"
    and yr: "py_float pf (a_fiscal_year r) = Inr (Some (of_int target_year))"
    and v: "py_float pf (metric_value r metric) = Inr (Some v)"
    and ok: "\<not> history_unparseable pf (df_detection df) target_year r metric"
  shows "(2 \<le> length (spec_historical_series pf (df_detection df) target_year r metric) \<longrightarrow>
            (anomaly_at det (metric_cols df) idx metric \<longleftrightarrow>
               f_gt (f_abs (z_score ar v
                 (spec_historical_series pf (df_detection df) target_year r metric))) threshold))
       \<and> (length (spec_historical_series pf (df_detection df) target_year r metric) < 2 \<longrightarrow>
            \<not> anomaly_at det (metric_cols df) idx metric)
       \<and> \<not> missing_at det (metric_cols df) idx metric
       \<and> \<not> non_numeric_at det (metric_cols df) idx metric
       \<and> (accurate_at ar 40 [10, 20, 30] (1 / 100) \<longrightarrow>
            f_gt (f_abs (z_score ar 40 [10, 20, 30])) 1)
       \<and> (accurate_at ar 22 [10, 20, 30] (1 / 100) \<longrightarrow>
            \<not> f_gt (f_abs (z_score ar 22 [10, 20, 30])) 1)"
proof -
  let ?xs = "spec_historical_series pf (df_detection df) target_year r metric"
  obtain oc where oc: "classify_cell pf ar threshold target_year (metric_cols df) (df_detection df)
      metric (idx, r) = Inr oc"
    using detect_returns [OF det m ir] ..
  have "\<not> isl (py_float pf (metric_value r metric))" using v by simp
  from classify_cell_reaches_history [OF yr this oc]
  obtain hrows where h: "cell_history (df_detection df) target_year r metric = Inr hrows" ..
  have hd: "historical_data pf hrows metric = ?xs"
    using historical_data_spec [OF h] ok by simp
  note c = classify_cell_numeric [OF yr v h, of ar threshold "metric_cols df" idx, unfolded hd]
  have a: "anomaly_at det (metric_cols df) idx metric \<longleftrightarrow>
             2 \<le> length ?xs \<and> f_gt (f_abs (z_score ar v ?xs)) threshold"
    unfolding anomaly_at_iff [OF det ir m] c by auto
  have b: "\<not> missing_at det (metric_cols df) idx metric"
    unfolding missing_at_iff [OF det ir m] c by auto
  have d: "\<not> non_numeric_at det (metric_cols df) idx metric"
    unfolding non_numeric_at_iff [OF det ir m] c by auto
  from a b d z_score_accurate_40 [of ar] z_score_accurate_22 [of ar] show ?thesis by auto
qed

text \<open>
  The runs on the history 10, 20, 30 with the threshold 1, for an arithmetic whose
  computed z-score of 40 is above 1 and whose computed z-score of 22 is not.
\<close>

lemma detect_40:
  assumes "f_gt (f_abs (z_score ar 40 [10, 20, 30])) 1"
  shows "detect float_of_digits ar 1 2024
     (series_df [(Num 2021, Num 10), (Num 2022, Num 20), (Num 2023, Num 30), (Num 2024, Num 40)])
   = Inr \<lparr>anomalies =
       [\<lparr>an_excel_row = 5, an_excel_col = 4, an_current_val = 40,
         an_mean = np_mean ar [10, 20, 30], an_std_dev = np_std ar [10, 20, 30],
         an_z_score = z_score ar 40 [10, 20, 30],
         an_year = Num 2024, an_muni = Txt ''A'', an_category = Txt ''c'', an_metric = ''m1'',
         an_hist_comment = [(Num 2021, Num 10), (Num 2022, Num 20), (Num 2023, Num 30)]\<rparr>],
       missing_data = [], non_numeric = []\<rparr>"
  using assms by (simp add: detect_def eval_frame eval_cell)

lemma detect_22:
  assumes "\<not> f_gt (f_abs (z_score ar 22 [10, 20, 30])) 1"
  shows "detect float_of_digits ar 1 2024
     (series_df [(Num 2021, Num 10), (Num 2022, Num 20), (Num 2023, Num 30), (Num 2024, Num 22)])
   = Inr \<lparr>anomalies = [], missing_data = [], non_numeric = []\<rparr>"
  using assms by (simp add: detect_def eval_frame eval_cell)

text \<open>
  History 10, 20, 30 and threshold 1, with the arithmetic that does not round: the run
  on the value 40 appends an Anomaly on its cell, the run on the value 22 appends nothing.
\<close>

theorem anomaly_iff_z_score_above_threshold_witness:
  "detect float_of_digits exact_arith 1 2024
     (series_df [(Num 2021, Num 10), (Num 2022, Num 20), (Num 2023, Num 30), (Num 2024, Num 40)])
   = Inr \<lparr>anomalies =
       [\<lparr>an_excel_row = 5, an_excel_col = 4, an_current_val = 40,
         an_mean = np_mean exact_arith [10, 20, 30], an_std_dev = np_std exact_arith [10, 20, 30],
         an_z_score = z_score exact_arith 40 [10, 20, 30],
         an_year = Num 2024, an_muni = Txt ''A'', an_category = Txt ''c'', an_metric = ''m1'',
         an_hist_comment = [(Num 2021, Num 10), (Num 2022, Num 20), (Num 2023, Num 30)]\<rparr>],
       missing_data = [], non_numeric = []\<rparr>
   \<and> detect float_of_digits exact_arith 1 2024
     (series_df [(Num 2021, Num 10), (Num 2022, Num 20), (Num 2023, Num 30), (Num 2024, Num 22)])
   = Inr \<lparr>anomalies = [], missing_data = [], non_numeric = []\<rparr>
   \<and> spec_historical_series float_of_digits
        (df_detection (series_df [(Num 2021, Num 10), (Num 2022, Num 20), (Num 2023, Num 30),
           (Num 2024, Num 40)])) 2024 (obs (Num 2024) (Txt ''A'') (Txt ''c'') [(''m1'', Num 40)]) ''m1''
       = [10, 20, 30]
   \<and> f_gt (f_abs (z_score exact_arith 40 [10, 20, 30])) 1
   \<and> \<not> f_gt (f_abs (z_score exact_arith 22 [10, 20, 30])) 1
   \<and> anomaly_at
     \<lparr>anomalies =
       [\<lparr>an_excel_row = 5, an_excel_col = 4, an_current_val = 40,
         an_mean = np_mean exact_arith [10, 20, 30], an_std_dev = np_std exact_arith [10, 20, 30],
         an_z_score = z_score exact_arith 40 [10, 20, 30],
         an_year = Num 2024, an_muni = Txt ''A'', an_category = Txt ''c'', an_metric = ''m1'',
         an_hist_comment = [(Num 2021, Num 10), (Num 2022, Num 20), (Num 2023, Num 30)]\<rparr>],
       missing_data = [], non_numeric = []\<rparr> [''m1''] 3 ''m1''"
proof -
  let ?r40 = "obs (Num 2024) (Txt ''A'') (Txt ''c'') [(''m1'', Num 40)]"
  let ?df40 = "series_df [(Num 2021, Num 10), (Num 2022, Num 20), (Num 2023, Num 30), (Num 2024, Num 40)]"
  let ?det40 = "\<lparr>anomalies =
       [\<lparr>an_excel_row = 5, an_excel_col = 4, an_current_val = 40,
         an_mean = np_mean exact_arith [10, 20, 30], an_std_dev = np_std exact_arith [10, 20, 30],
         an_z_score = z_score exact_arith 40 [10, 20, 30],
         an_year = Num 2024, an_muni = Txt ''A'', an_category = Txt ''c'', an_metric = ''m1'',
         an_hist_comment = [(Num 2021, Num 10), (Num 2022, Num 20), (Num 2023, Num 30)]\<rparr>],
       missing_data = [], non_numeric = []\<rparr>"
  have z40: "f_gt (f_abs (z_score exact_arith 40 [10, 20, 30])) 1"
    by (rule z_score_accurate_40) (rule exact_arith_accurate)
  have z22: "\<not> f_gt (f_abs (z_score exact_arith 22 [10, 20, 30])) 1"
    by (rule z_score_accurate_22) (rule exact_arith_accurate)
  note run40 = detect_40 [OF z40]
  note run22 = detect_22 [OF z22]
  have s40: "spec_historical_series float_of_digits (df_detection ?df40) 2024 ?r40 ''m1'' = [10, 20, 30]"
    by (simp add: eval_frame eval_spec)
  have ir: "(3, ?r40) \<in> set (df_detection ?df40)" by (simp add: eval_frame)
  have m: "''m1'' \<in> set (metric_cols ?df40)" by (simp add: eval_frame)
  have cols: "metric_cols ?df40 = [''m1'']" by (simp add: eval_frame)
  have yr: "py_float float_of_digits (a_fiscal_year ?r40) = Inr (Some (of_int 2024))"
    by (simp add: obs_def)
  have v: "py_float float_of_digits (metric_value ?r40 ''m1'') = Inr (Some 40)"
    by (simp add: obs_def)
  have ok: "\<not> history_unparseable float_of_digits (df_detection ?df40) 2024 ?r40 ''m1''"
    by (simp add: eval_frame eval_spec)
  from anomaly_iff_z_score_above_threshold [OF run40 ir m yr v ok] z40
  have "anomaly_at ?det40 [''m1''] 3 ''m1''"
    unfolding s40 cols by simp
  with run40 run22 s40 z40 z22 show ?thesis by simp
qed

lemma detect_text_history:
  "detect float_of_digits ar 1 2024
     (series_df [(Num 2020, Txt ''abc''), (Num 2021, Txt ''10''), (Num 2022, Txt ''20''),
                 (Num 2023, Txt ''30''), (Num 2024, Txt ''40'')])
   = Inr \<lparr>anomalies = [], missing_data = [], non_numeric = []\<rparr>"
  by (simp add: detect_def eval_frame eval_cell eval_parse)

text \<open>
  Claim C1 as stated fails: with one more earlier value that does not parse (the text
  \<^verbatim>\<open>abc\<close>), the series of numeric values is still 10, 20, 30 and the z-score of 40
  against it is above 1, but the code empties the whole history and appends no Anomaly,
  whatever the arithmetic.
\<close>

theorem anomaly_spec_series_counterexample:
  "(\<forall>ar. detect float_of_digits ar 1 2024
       (series_df [(Num 2020, Txt ''abc''), (Num 2021, Txt ''10''), (Num 2022, Txt ''20''),
                   (Num 2023, Txt ''30''), (Num 2024, Txt ''40'')])
     = Inr \<lparr>anomalies = [], missing_data = [], non_numeric = []\<rparr>)
   \<and> \<not> (\<forall>pf ar threshold target_year df det idx r metric v.
        detect pf ar threshold target_year df = Inr det \<longrightarrow>
        (idx, r) \<in> set (df_detection df) \<longrightarrow>
        metric \<in> set (metric_cols df) \<longrightarrow>
        py_float pf (a_fiscal_year r) = Inr (Some (of_int target_year)) \<longrightarrow>
        py_float pf (metric_value r metric) = Inr (Some v) \<longrightarrow>
        2 \<le> length (spec_historical_series pf (df_detection df) target_year r metric) \<longrightarrow>
        (anomaly_at det (metric_cols df) idx metric \<longleftrightarrow>
           \<bar>exact_z_score v (spec_historical_series pf (df_detection df) target_year r metric)\<bar>
             > threshold))"
proof (intro conjI allI notI)
  fix ar :: arith
  show "detect float_of_digits ar 1 2024
       (series_df [(Num 2020, Txt ''abc''), (Num 2021, Txt ''10''), (Num 2022, Txt ''20''),
                   (Num 2023, Txt ''30''), (Num 2024, Txt ''40'')])
     = Inr \<lparr>anomalies = [], missing_data = [], non_numeric = []\<rparr>"
    by (rule detect_text_history)
next
  let ?df = "series_df [(Num 2020, Txt ''abc''), (Num 2021, Txt ''10''), (Num 2022, Txt ''20''),
                 (Num 2023, Txt ''30''), (Num 2024, Txt ''40'')]"
  let ?r = "obs (Num 2024) (Txt ''A'') (Txt ''c'') [(''m1'', Txt ''40'')]"
  let ?det = "\<lparr>anomalies = [], missing_data = [], non_numeric = []\<rparr>"
  assume claim: "\<forall>pf ar threshold target_year df det idx r metric v.
        detect pf ar threshold target_year df = Inr det \<longrightarrow>
        (idx, r) \<in> set (df_detection df) \<longrightarrow>
        metric \<in> set (metric_cols df) \<longrightarrow>
        py_float pf (a_fiscal_year r) = Inr (Some (of_int target_year)) \<longrightarrow>
        py_float pf (metric_value r metric) = Inr (Some v) \<longrightarrow>
        2 \<le> length (spec_historical_series pf (df_detection df) target_year r metric) \<longrightarrow>
        (anomaly_at det (metric_cols df) idx metric \<longleftrightarrow>
           \<bar>exact_z_score v (spec_historical_series pf (df_detection df) target_year r metric)\<bar>
             > threshold)"
  have s: "spec_historical_series float_of_digits (df_detection ?df) 2024 ?r ''m1'' = [10, 20, 30]"
    by (simp add: eval_frame eval_spec eval_parse)
  have ir: "(4, ?r) \<in> set (df_detection ?df)"
    by (simp add: eval_frame)
  have m: "''m1'' \<in> set (metric_cols ?df)"
    by (simp add: eval_frame)
  have yr: "py_float float_of_digits (a_fiscal_year ?r) = Inr (Some (of_int 2024))"
    by (simp add: obs_def)
  have v: "py_float float_of_digits (metric_value ?r ''m1'') = Inr (Some 40)"
    by (simp add: obs_def eval_parse)
  have "anomaly_at ?det (metric_cols ?df) 4 ''m1'' \<longleftrightarrow> \<bar>exact_z_score 40 [10, 20, 30]\<bar> > 1"
    using claim [rule_format, OF detect_text_history [of exact_arith] ir m yr v] s by simp
  with exact_z_score_40 have "anomaly_at ?det (metric_cols ?df) 4 ''m1''" by simp
  then show False by (simp add: anomaly_at_def)
qed

text \<open>
  Claim C4, as amended. For a cell of the target year with a numeric value \<open>v\<close>, whose
  history has at least 2 points and a population standard deviation that, as numpy
  computes it in floating point, compares equal to 0, the z-score is forced to 0 and no
  Anomaly sits on the cell, for every threshold above 0 and every \<open>v\<close>. So it is for the
  history 10, 10, 10, whose computed deviation is 0.
\<close>

theorem zero_variance_never_anomaly:
  assumes det: "detect pf ar threshold target_year df = Inr det"
    and ir: "(idx, r) \<in> set (df_detection df)"
    and m: "metric \<in> set (metric_cols df)"
    and yr: "py_float pf (a_fiscal_year r) = Inr (Some (of_int target_year))"
    and v: "py_float pf (metric_value r metric) = Inr (Some v)"
    and h: "cell_history (df_detection df) target_year r metric = Inr hrows"
    and len: "2 \<le> length (historical_data pf hrows metric)"
    and sd: "np_std ar (historical_data pf hrows metric) = Finite 0"
    and t: "0 < threshold"
  shows "z_score ar v (historical_data pf hrows metric) = Finite 0
       \<and> \<not> anomaly_at det (metric_cols df) idx metric"
proof -
  have z: "z_score ar v (historical_data pf hrows metric) = Finite 0"
    using sd by (simp add: z_score_def)
  have "classify_cell pf ar threshold target_year (metric_cols df) (df_detection df) metric (idx, r)
          = Inr NoEvent"
    using classify_cell_numeric [OF yr v h, of ar threshold "metric_cols df" idx] z t by simp
  then have "\<not> anomaly_at det (metric_cols df) idx metric"
    unfolding anomaly_at_iff [OF det ir m] by simp
  with z show ?thesis by simp
qed

lemma detect_10_10_10:
  assumes "np_std ar [10, 10, 10] = Finite 0"
  shows "detect float_of_digits ar 5 2024
     (series_df [(Num 2021, Num 10), (Num 2022, Num 10), (Num 2023, Num 10), (Num 2024, Num v)])
   = Inr \<lparr>anomalies = [], missing_data = [], non_numeric = []\<rparr>"
  using assms by (simp add: detect_def eval_frame eval_cell z_score_def)

text \<open>
  The values 10 and 40 against the history 10, 10, 10, whose deviation is 0 without any
  rounding: the runs append nothing.
\<close>

theorem zero_variance_never_anomaly_witness:
  "detect float_of_digits exact_arith 5 2024
     (series_df [(Num 2021, Num 10), (Num 2022, Num 10), (Num 2023, Num 10), (Num 2024, Num 10)])
     = Inr \<lparr>anomalies = [], missing_data = [], non_numeric = []\<rparr>
   \<and> detect float_of_digits exact_arith 5 2024
     (series_df [(Num 2021, Num 10), (Num 2022, Num 10), (Num 2023, Num 10), (Num 2024, Num 40)])
     = Inr \<lparr>anomalies = [], missing_data = [], non_numeric = []\<rparr>
   \<and> np_std exact_arith [10, 10, 10] = Finite 0
   \<and> z_score exact_arith 40 [10, 10, 10] = Finite 0
   \<and> \<not> anomaly_at \<lparr>anomalies = [], missing_data = [], non_numeric = []\<rparr> [''m1''] 3 ''m1''"
proof -
  let ?df = "series_df [(Num 2021, Num 10), (Num 2022, Num 10), (Num 2023, Num 10), (Num 2024, Num 40)]"
  let ?r = "obs (Num 2024) (Txt ''A'') (Txt ''c'') [(''m1'', Num 40)]"
  let ?hrows = "[(0, obs (Num 2021) (Txt ''A'') (Txt ''c'') [(''m1'', Num 10)]),
                 (1, obs (Num 2022) (Txt ''A'') (Txt ''c'') [(''m1'', Num 10)]),
                 (2, obs (Num 2023) (Txt ''A'') (Txt ''c'') [(''m1'', Num 10)])]"
  note run = detect_10_10_10 [OF exact_arith_10_10_10(2)]
  have ir: "(3, ?r) \<in> set (df_detection ?df)"
    by (simp add: eval_frame)
  have m: "''m1'' \<in> set (metric_cols ?df)"
    by (simp add: eval_frame)
  have cols: "metric_cols ?df = [''m1'']" by (simp add: eval_frame)
  have yr: "py_float float_of_digits (a_fiscal_year ?r) = Inr (Some (of_int 2024))"
    by (simp add: obs_def)
  have v: "py_float float_of_digits (metric_value ?r ''m1'') = Inr (Some 40)"
    by (simp add: obs_def)
  have h: "cell_history (df_detection ?df) 2024 ?r ''m1'' = Inr ?hrows"
    by (simp add: eval_frame cell_history_def hist_rows_def)
  have hd: "historical_data float_of_digits ?hrows ''m1'' = [10, 10, 10]"
    by (simp add: historical_data_def obs_def)
  have len: "2 \<le> length (historical_data float_of_digits ?hrows ''m1'')"
    unfolding hd by simp
  have sd: "np_std exact_arith (historical_data float_of_digits ?hrows ''m1'') = Finite 0"
    unfolding hd by (rule exact_arith_10_10_10)
  have t: "(0::real) < 5" by simp
  from zero_variance_never_anomaly [OF run [of 40] ir m yr v h len sd t]
  have "z_score exact_arith 40 [10, 10, 10] = Finite 0
      \<and> \<not> anomaly_at \<lparr>anomalies = [], missing_data = [], non_numeric = []\<rparr> [''m1''] 3 ''m1''"
    unfolding hd cols .
  with run [of 10] run [of 40] exact_arith_10_10_10(2) show ?thesis by simp
qed

text \<open>
  With an arithmetic that returns what IEEE 754 double arithmetic returns on the history
  0.1, 0.1, 0.1 and the value 0.2, the run with the threshold 5 appends an Anomaly.
\<close>

lemma detect_tenths:
  assumes "ieee_on_tenths ar"
  shows "detect float_of_digits ar 5 2024
     (series_df [(Num 2021, Num tenth), (Num 2022, Num tenth), (Num 2023, Num tenth),
                 (Num 2024, Num (2 * tenth))])
   = Inr \<lparr>anomalies =
       [\<lparr>an_excel_row = 5, an_excel_col = 4, an_current_val = 2 * tenth,
         an_mean = Finite (tenth + 1 / 2 ^ 56), an_std_dev = Finite (1 / 2 ^ 56),
         an_z_score = Finite 7205759403792793,
         an_year = Num 2024, an_muni = Txt ''A'', an_category = Txt ''c'', an_metric = ''m1'',
         an_hist_comment = [(Num 2021, Num tenth), (Num 2022, Num tenth), (Num 2023, Num tenth)]\<rparr>],
       missing_data = [], non_numeric = []\<rparr>"
proof -
  from assms have a: "np_mean ar [tenth, tenth, tenth] = Finite (tenth + 1 / 2 ^ 56)"
    "np_std ar [tenth, tenth, tenth] = Finite (1 / 2 ^ 56)"
    "f_sub ar (2 * tenth) (Finite (tenth + 1 / 2 ^ 56)) = Finite (7205759403792793 / 2 ^ 56)"
    "f_div ar (Finite (7205759403792793 / 2 ^ 56)) (Finite (1 / 2 ^ 56)) = Finite 7205759403792793"
    by (simp_all add: ieee_on_tenths_def)
  have z: "z_score ar (2 * tenth) [tenth, tenth, tenth] = Finite 7205759403792793"
    unfolding z_score_def a by simp
  show ?thesis
    by (simp add: detect_def eval_frame eval_cell z a)
qed

lemma ieee_on_tenths_exists: "\<exists>ar. ieee_on_tenths ar"
proof
  show "ieee_on_tenths
     \<lparr>np_mean = (\<lambda>xs. Finite (tenth + 1 / 2 ^ 56)), np_std = (\<lambda>xs. Finite (1 / 2 ^ 56)),
      f_sub = (\<lambda>v m. Finite (7205759403792793 / 2 ^ 56)),
      f_div = (\<lambda>a b. Finite 7205759403792793)\<rparr>"
    by (simp add: ieee_on_tenths_def)
qed

text \<open>
  Claim C4 as stated fails: the history 0.1, 0.1, 0.1 has the population standard
  deviation 0, but the mean that floating point arithmetic computes is not 0.1, the
  computed deviation is \<open>1 / 2 ^ 56\<close> and not 0, the guard does not fire, the computed
  z-score of the value 0.2 is 7205759403792793, and the run with the threshold 5 appends
  an Anomaly on the cell.
\<close>

theorem constant_history_flagged_counterexample:
  "exact_std [tenth, tenth, tenth] = 0
   \<and> (\<exists>ar. ieee_on_tenths ar)
   \<and> \<not> (\<exists>ar. ieee_on_tenths ar
          \<and> detect float_of_digits ar 5 2024
              (series_df [(Num 2021, Num tenth), (Num 2022, Num tenth), (Num 2023, Num tenth),
                          (Num 2024, Num (2 * tenth))])
            \<noteq> Inr \<lparr>anomalies =
                 [\<lparr>an_excel_row = 5, an_excel_col = 4, an_current_val = 2 * tenth,
                   an_mean = Finite (tenth + 1 / 2 ^ 56), an_std_dev = Finite (1 / 2 ^ 56),
                   an_z_score = Finite 7205759403792793,
                   an_year = Num 2024, an_muni = Txt ''A'', an_category = Txt ''c'',
                   an_metric = ''m1'',
                   an_hist_comment = [(Num 2021, Num tenth), (Num 2022, Num tenth),
                     (Num 2023, Num tenth)]\<rparr>],
                 missing_data = [], non_numeric = []\<rparr>)"
proof (intro conjI)
  show "exact_std [tenth, tenth, tenth] = 0"
    by (simp add: exact_std_def exact_mean_def)
  show "\<exists>ar. ieee_on_tenths ar" by (rule ieee_on_tenths_exists)
  show "\<not> (\<exists>ar. ieee_on_tenths ar
          \<and> detect float_of_digits ar 5 2024
              (series_df [(Num 2021, Num tenth), (Num 2022, Num tenth), (Num 2023, Num tenth),
                          (Num 2024, Num (2 * tenth))])
            \<noteq> Inr \<lparr>anomalies =
                 [\<lparr>an_excel_row = 5, an_excel_col = 4, an_current_val = 2 * tenth,
                   an_mean = Finite (tenth + 1 / 2 ^ 56), an_std_dev = Finite (1 / 2 ^ 56),
                   an_z_score = Finite 7205759403792793,
                   an_year = Num 2024, an_muni = Txt ''A'', an_category = Txt ''c'',
                   an_metric = ''m1'',
                   an_hist_comment = [(Num 2021, Num tenth), (Num 2022, Num tenth),
                     (Num 2023, Num tenth)]\<rparr>],
                 missing_data = [], non_numeric = []\<rparr>)"
    using detect_tenths by blast
qed

text \<open>
  Claim C3, as amended. The detection has completed. For a row of the detection set
  whose year equals the target year and whose value under a metric is missing, a Missing
  event sits on the cell if and only if the earlier rows of the same jurisdiction and
  category hold at least one numeric value and no value that fails to parse; no other
  event sits on the cell.
\<close>

theorem missing_iff_parsed_history:
  assumes det: "detect pf ar threshold target_year df = Inr det"
    and ir: "(idx, r) \<in> set (df_detection df)"
    and m: "metric \<in> set (metric_cols df)"
    and yr: "py_float pf (a_fiscal_year r) = Inr (Some (of_int target_year))"
    and na: "isna (metric_value r metric)"
  shows "(missing_at det (metric_cols df) idx metric \<longleftrightarrow>
            \<not> history_unparseable pf (df_detection df) target_year r metric
            \<and> spec_historical_series pf (df_detection df) target_year r metric \<noteq> [])
       \<and> \<not> anomaly_at det (metric_cols df) idx metric
       \<and> \<not> non_numeric_at det (metric_cols df) idx metric"
proof -
  obtain oc where oc: "classify_cell pf ar threshold target_year (metric_cols df) (df_detection df)
      metric (idx, r) = Inr oc"
    using detect_returns [OF det m ir] ..
  have "\<not> isl (py_float pf (metric_value r metric))"
    using na by (cases "metric_value r metric") simp_all
  from classify_cell_reaches_history [OF yr this oc]
  obtain hrows where h: "cell_history (df_detection df) target_year r metric = Inr hrows" ..
  note c = classify_cell_absent [OF yr na h, of ar threshold "metric_cols df" idx,
      unfolded historical_data_spec [OF h]]
  have a: "missing_at det (metric_cols df) idx metric \<longleftrightarrow>
            \<not> history_unparseable pf (df_detection df) target_year r metric
            \<and> spec_historical_series pf (df_detection df) target_year r metric \<noteq> []"
    unfolding missing_at_iff [OF det ir m] c by auto
  have b: "\<not> anomaly_at det (metric_cols df) idx metric"
    unfolding anomaly_at_iff [OF det ir m] c by auto
  have d: "\<not> non_numeric_at det (metric_cols df) idx metric"
    unfolding non_numeric_at_iff [OF det ir m] c by auto
  from a b d show ?thesis by simp
qed

lemma detect_missing_value:
  "detect float_of_digits exact_arith 5 2024 (series_df [(Num 2022, Num 7), (Num 2024, NaN)])
   = Inr \<lparr>anomalies = [],
          missing_data = [\<lparr>ms_excel_row = 3, ms_excel_col = 4, ms_year = Num 2024,
             ms_muni = Txt ''A'', ms_category = Txt ''c'', ms_metric = ''m1'',
             ms_hist_comment = [(Num 2022, Num 7)]\<rparr>],
          non_numeric = []\<rparr>"
  by (simp add: detect_def eval_frame eval_cell)

text \<open>
  One earlier value 7 and a missing value at the target year: a Missing event.
\<close>

theorem missing_iff_parsed_history_witness:
  "detect float_of_digits exact_arith 5 2024 (series_df [(Num 2022, Num 7), (Num 2024, NaN)])
   = Inr \<lparr>anomalies = [],
          missing_data = [\<lparr>ms_excel_row = 3, ms_excel_col = 4, ms_year = Num 2024,
             ms_muni = Txt ''A'', ms_category = Txt ''c'', ms_metric = ''m1'',
             ms_hist_comment = [(Num 2022, Num 7)]\<rparr>],
          non_numeric = []\<rparr>
   \<and> spec_historical_series float_of_digits
        (df_detection (series_df [(Num 2022, Num 7), (Num 2024, NaN)])) 2024
        (obs (Num 2024) (Txt ''A'') (Txt ''c'') [(''m1'', NaN)]) ''m1'' = [7]
   \<and> missing_at \<lparr>anomalies = [],
          missing_data = [\<lparr>ms_excel_row = 3, ms_excel_col = 4, ms_year = Num 2024,
             ms_muni = Txt ''A'', ms_category = Txt ''c'', ms_metric = ''m1'',
             ms_hist_comment = [(Num 2022, Num 7)]\<rparr>],
          non_numeric = []\<rparr> [''m1''] 1 ''m1''"
proof -
  let ?df = "series_df [(Num 2022, Num 7), (Num 2024, NaN)]"
  let ?r = "obs (Num 2024) (Txt ''A'') (Txt ''c'') [(''m1'', NaN)]"
  have ir: "(1, ?r) \<in> set (df_detection ?df)"
    by (simp add: eval_frame)
  have m: "''m1'' \<in> set (metric_cols ?df)"
    by (simp add: eval_frame)
  have yr: "py_float float_of_digits (a_fiscal_year ?r) = Inr (Some (of_int 2024))"
    by (simp add: obs_def)
  have na: "isna (metric_value ?r ''m1'')"
    by (simp add: obs_def)
  have s: "spec_historical_series float_of_digits (df_detection ?df) 2024 ?r ''m1'' = [7]"
    by (simp add: eval_frame eval_spec)
  have u: "\<not> history_unparseable float_of_digits (df_detection ?df) 2024 ?r ''m1''"
    by (simp add: eval_frame eval_spec)
  from missing_iff_parsed_history [OF detect_missing_value ir m yr na] s u
  show ?thesis
    by (simp add: detect_missing_value) (simp add: eval_frame)
qed

lemma detect_missing_text_history:
  "detect float_of_digits exact_arith 5 2024
     (series_df [(Num 2022, Txt ''10''), (Num 2023, Txt ''abc''), (Num 2024, NaN)])
   = Inr \<lparr>anomalies = [], missing_data = [], non_numeric = []\<rparr>"
  by (simp add: detect_def eval_frame eval_cell eval_parse)

text \<open>
  Claim C3 as stated fails: the earlier rows hold the valid value 10 and the text
  \<^verbatim>\<open>abc\<close>; a valid historical point exists, and no Missing event is appended.
\<close>

theorem missing_valid_point_counterexample:
  "\<not> (\<forall>pf ar threshold target_year df det idx r metric.
        detect pf ar threshold target_year df = Inr det \<longrightarrow>
        (idx, r) \<in> set (df_detection df) \<longrightarrow>
        metric \<in> set (metric_cols df) \<longrightarrow>
        py_float pf (a_fiscal_year r) = Inr (Some (of_int target_year)) \<longrightarrow>
        isna (metric_value r metric) \<longrightarrow>
        (missing_at det (metric_cols df) idx metric \<longleftrightarrow>
           spec_historical_series pf (df_detection df) target_year r metric \<noteq> []))"
proof
  let ?df = "series_df [(Num 2022, Txt ''10''), (Num 2023, Txt ''abc''), (Num 2024, NaN)]"
  let ?r = "obs (Num 2024) (Txt ''A'') (Txt ''c'') [(''m1'', NaN)]"
  let ?det = "\<lparr>anomalies = [], missing_data = [], non_numeric = []\<rparr>"
  assume claim: "\<forall>pf ar threshold target_year df det idx r metric.
        detect pf ar threshold target_year df = Inr det \<longrightarrow>
        (idx, r) \<in> set (df_detection df) \<longrightarrow>
        metric \<in> set (metric_cols df) \<longrightarrow>
        py_float pf (a_fiscal_year r) = Inr (Some (of_int target_year)) \<longrightarrow>
        isna (metric_value r metric) \<longrightarrow>
        (missing_at det (metric_cols df) idx metric \<longleftrightarrow>
           spec_historical_series pf (df_detection df) target_year r metric \<noteq> [])"
  have s: "spec_historical_series float_of_digits (df_detection ?df) 2024 ?r ''m1'' = [10]"
    by (simp add: eval_frame eval_spec eval_parse)
  have ir: "(2, ?r) \<in> set (df_detection ?df)"
    by (simp add: eval_frame)
  have m: "''m1'' \<in> set (metric_cols ?df)"
    by (simp add: eval_frame)
  have yr: "py_float float_of_digits (a_fiscal_year ?r) = Inr (Some (of_int 2024))"
    by (simp add: obs_def)
  have na: "isna (metric_value ?r ''m1'')"
    by (simp add: obs_def)
  have "missing_at ?det (metric_cols ?df) 2 ''m1''"
    using claim [rule_format, OF detect_missing_text_history ir m yr na] s by simp
  then show False by (simp add: missing_at_def)
qed






text \<open>
  Claim C6. Whatever the order of the rows of the table, every row of the history of a
  cell is a row of the detection set with a numeric year strictly below the target year,
  the jurisdiction and the category of the cell's row, and a value under the metric;
  and the history of the cell holds the same rows when the rows of the table are
  permuted.
\<close>

theorem history_earlier_same_entity:
  assumes h: "cell_history dfd target_year r metric = Inr hrows"
    and mem: "(i, h) \<in> set hrows"
  shows "(i, h) \<in> set dfd
       \<and> (\<exists>y. a_fiscal_year h = Num y \<and> y < of_int target_year)
       \<and> a_jurisdiction h = a_jurisdiction r
       \<and> a_service h = a_service r
       \<and> \<not> isna (metric_value h metric)
       \<and> (\<forall>dfd'. mset dfd' = mset dfd \<longrightarrow>
            (\<exists>hrows'. cell_history dfd' target_year r metric = Inr hrows'
                      \<and> mset hrows' = mset hrows))"
proof -
  from mem have "(i, h) \<in> set (earlier_rows dfd target_year r)" and "\<not> isna (metric_value h metric)"
    unfolding cell_history_eq [OF h] by auto
  then have a: "(i, h) \<in> set dfd
       \<and> (\<exists>y. a_fiscal_year h = Num y \<and> y < of_int target_year)
       \<and> a_jurisdiction h = a_jurisdiction r
       \<and> a_service h = a_service r
       \<and> \<not> isna (metric_value h metric)"
    by (auto simp: earlier_rows_def dest: num_lt_Num cell_eq_imp_eq)
  have b: "\<exists>hrows'. cell_history dfd' target_year r metric = Inr hrows' \<and> mset hrows' = mset hrows"
    if p: "mset dfd' = mset dfd" for dfd'
  proof -
    from p have "set dfd' = set dfd" by (rule mset_eq_setD)
    then have "list_ex (\<lambda>(idx, r). is_text (a_fiscal_year r)) dfd'
        = list_ex (\<lambda>(idx, r). is_text (a_fiscal_year r)) dfd"
      by (simp add: list_ex_iff)
    with h p show ?thesis
      by (auto simp: cell_history_def hist_rows_def mset_filter split: if_splits)
  qed
  from a b show ?thesis by blast
qed

text \<open>
  Rows in the order 2025, 2023, 2024, 2021: the history of the 2024 cell holds 2023 and 2021.
\<close>

theorem history_earlier_same_entity_witness:
  "cell_history (df_detection (series_df [(Num 2025, Num 1), (Num 2023, Num 30),
      (Num 2024, Num 40), (Num 2021, Num 10)])) 2024
     (obs (Num 2024) (Txt ''A'') (Txt ''c'') [(''m1'', Num 40)]) ''m1''
   = Inr [(1, obs (Num 2023) (Txt ''A'') (Txt ''c'') [(''m1'', Num 30)]),
          (3, obs (Num 2021) (Txt ''A'') (Txt ''c'') [(''m1'', Num 10)])]
   \<and> (\<exists>y. a_fiscal_year (obs (Num 2021) (Txt ''A'') (Txt ''c'') [(''m1'', Num 10)]) = Num y
            \<and> y < of_int 2024)"
proof -
  let ?df = "series_df [(Num 2025, Num 1), (Num 2023, Num 30), (Num 2024, Num 40), (Num 2021, Num 10)]"
  let ?r = "obs (Num 2024) (Txt ''A'') (Txt ''c'') [(''m1'', Num 40)]"
  let ?h = "obs (Num 2021) (Txt ''A'') (Txt ''c'') [(''m1'', Num 10)]"
  have c: "cell_history (df_detection ?df) 2024 ?r ''m1''
       = Inr [(1, obs (Num 2023) (Txt ''A'') (Txt ''c'') [(''m1'', Num 30)]), (3, ?h)]"
    by (simp add: eval_frame cell_history_def hist_rows_def)
  have mem: "(3, ?h) \<in> set [(1, obs (Num 2023) (Txt ''A'') (Txt ''c'') [(''m1'', Num 30)]), (3, ?h)]"
    by simp
  from history_earlier_same_entity [OF c mem] c show ?thesis by simp
qed

section \<open>The event lists, the dictionaries, the window and the summary\<close>








lemma run_summary:
  assumes "run_anomaly_detection pf ar pstrip fstr df threshold target_year = Inr rep"
  shows "\<exists>det. detect pf ar threshold target_year df = Inr det \<and> r_detection rep = det
           \<and> sort_py (summary_data (metric_names df) det) = Inr (r_summary rep)
           \<and> r_pivot rep = transform_data (metric_cols df) (df_detection df)
           \<and> r_anomaly_dict rep = anomaly_dict pstrip fstr (metric_names df) (anomalies det)
           \<and> r_missing_dict rep = missing_dict pstrip fstr (metric_names df) (missing_data det)
           \<and> r_non_numeric_dict rep = non_numeric_dict pstrip fstr (metric_names df) (non_numeric det)"
  using assms
  by (auto simp: run_anomaly_detection_def Let_def split: sum.splits)

lemmas eval_table = df_detection_def table_df_def obs_def metric_cols_def enumerate_eq_zip upt_rec





















text \<open>
  Claim C8, as amended. The window refuses to run, with an error box, exactly when no
  input file or no output location is chosen, or the threshold field does not parse as a
  float, or the year field does not parse as an integer. In every other case the
  detection is run with the parsed threshold, whatever its sign.
\<close>

theorem run_detection_error_iff:
  "(isl (run_detection pf pint ar pstrip fstr df csv_path output_path threshold target_year) \<longleftrightarrow>
      csv_path = [] \<or> output_path = None \<or> output_path = Some []
      \<or> pf threshold = None \<or> pint target_year = None)
   \<and> (\<forall>t y. csv_path \<noteq> [] \<and> output_path \<noteq> None \<and> output_path \<noteq> Some []
              \<and> pf threshold = Some t \<and> pint target_year = Some y \<longrightarrow>
          run_detection pf pint ar pstrip fstr df csv_path output_path threshold target_year
            = Inr (handle_anomaly_detection pf ar pstrip fstr df t y))"
  by (auto simp: run_detection_def split: option.splits)

lemma digits_examples:
  "float_of_digits ''0'' = Some 0" "float_of_digits ''5'' = Some 5"
  "int_of_digits ''2024'' = Some 2024" "float_of_digits ''abc'' = None"
  by (simp_all add: float_of_digits_def int_of_digits_def digit_value_def less_eq_char_def)

text \<open>
  The fields \<^verbatim>\<open>5\<close> and \<^verbatim>\<open>2024\<close> run the detection; the threshold field \<^verbatim>\<open>abc\<close> is refused.
\<close>

theorem run_detection_error_iff_witness:
  "run_detection float_of_digits int_of_digits exact_arith ascii_strip (\<lambda>x. []) (series_df []) ''in.csv''
      (Some ''out.xlsx'') ''5'' ''2024''
     = Inr (handle_anomaly_detection float_of_digits exact_arith ascii_strip (\<lambda>x. []) (series_df []) 5 2024)
   \<and> isl (run_detection float_of_digits int_of_digits exact_arith ascii_strip (\<lambda>x. []) (series_df []) ''in.csv''
      (Some ''out.xlsx'') ''abc'' ''2024'')"
  using run_detection_error_iff [of float_of_digits int_of_digits exact_arith ascii_strip
      "\<lambda>x. []" "series_df []" "''in.csv''" "Some ''out.xlsx''" "''5''" "''2024''"]
    run_detection_error_iff [of float_of_digits int_of_digits exact_arith ascii_strip
      "\<lambda>x. []" "series_df []" "''in.csv''" "Some ''out.xlsx''" "''abc''" "''2024''"]
  by (simp add: digits_examples)

lemma detect_threshold_0:
  "detect float_of_digits exact_arith 0 2024
     (series_df [(Num 2021, Num 10), (Num 2023, Num 30), (Num 2024, Num 40)])
   = Inr \<lparr>anomalies =
       [\<lparr>an_excel_row = 4, an_excel_col = 4, an_current_val = 40, an_mean = Finite 20,
         an_std_dev = Finite 10, an_z_score = Finite 2,
         an_year = Num 2024, an_muni = Txt ''A'', an_category = Txt ''c'', an_metric = ''m1'',
         an_hist_comment = [(Num 2021, Num 10), (Num 2023, Num 30)]\<rparr>],
       missing_data = [], non_numeric = []\<rparr>"
  by (simp add: detect_def eval_frame eval_cell exact_arith_10_30)

text \<open>
  Claim C8 as stated fails: with the threshold field \<^verbatim>\<open>0\<close> the detection runs to
  completion and reports an Anomaly (the value 40 against the history 10, 30, whose mean
  20, deviation 10 and z-score 2 are exact in floating point).
\<close>

theorem threshold_zero_runs_counterexample:
  "float_of_digits ''0'' = Some 0
   \<and> (\<exists>rep. run_detection float_of_digits int_of_digits exact_arith ascii_strip (\<lambda>x. [])
         (series_df [(Num 2021, Num 10), (Num 2023, Num 30), (Num 2024, Num 40)])
         ''in.csv'' (Some ''out.xlsx'') ''0'' ''2024'' = Inr (Complete rep)
       \<and> map an_excel_row (anomalies (r_detection rep)) = [4]
       \<and> map s_type (r_summary rep) = [''Anomaly''])"
  by (simp add: run_detection_def digits_examples handle_anomaly_detection_def
      run_anomaly_detection_def detect_threshold_0 summary_data_def Let_def)

lemma py_lt_text:
  "is_text a \<Longrightarrow> is_text b \<Longrightarrow> py_lt a b = Inr (cell_text a < cell_text b)"
  by (cases a; cases b) simp_all

lemma insort_py_text:
  assumes "is_text (s_muni x)" and "\<forall>y \<in> set ys. is_text (s_muni y)"
  shows "insort_py x ys = Inr (insort_key (\<lambda>x. cell_text (s_muni x)) x ys)"
  using assms
proof (induction ys)
  case Nil
  show ?case by simp
next
  case (Cons y ys)
  then have lt: "py_lt (s_muni y) (s_muni x) = Inr (cell_text (s_muni y) < cell_text (s_muni x))"
    by (simp add: py_lt_text)
  show ?case
  proof (cases "cell_text (s_muni y) < cell_text (s_muni x)")
    case True
    with Cons lt show ?thesis by (simp add: not_le [symmetric] del: not_le)
  next
    case False
    with lt show ?thesis by (simp add: not_less)
  qed
qed

lemma set_sort_py_text:
  assumes "\<forall>x \<in> set xs. is_text (s_muni x)"
  shows "sort_py xs = Inr (sort_key (\<lambda>x. cell_text (s_muni x)) xs)"
  using assms
proof (induction xs)
  case Nil
  show ?case by simp
next
  case (Cons x xs)
  then have "sort_py xs = Inr (sort_key (\<lambda>x. cell_text (s_muni x)) xs)" by simp
  moreover have "insort_py x (sort_key (\<lambda>x. cell_text (s_muni x)) xs)
      = Inr (insort_key (\<lambda>x. cell_text (s_muni x)) x (sort_key (\<lambda>x. cell_text (s_muni x)) xs))"
    using Cons.prems by (intro insort_py_text) simp_all
  ultimately show ?case by simp
qed

text \<open>
  Claim C9. When the run completes and the jurisdiction of every event is a text, the
  summary is the list of the events sorted by jurisdiction name in the order of the
  character codes (upper case before lower case): it is ascending, it is a permutation
  of the events, the events of one jurisdiction keep their order of insertion, and it is
  the only list with these three properties, so that every run on the same events gives
  the same order.
\<close>

theorem summary_sorted_by_jurisdiction:
  assumes run: "run_anomaly_detection pf ar pstrip fstr df threshold target_year = Inr rep"
    and text_keys: "\<forall>x \<in> set (summary_data (metric_names df) (r_detection rep)). is_text (s_muni x)"
  shows "sorted (map (\<lambda>x. cell_text (s_muni x)) (r_summary rep))
       \<and> mset (r_summary rep) = mset (summary_data (metric_names df) (r_detection rep))
       \<and> (\<forall>k. filter (\<lambda>x. cell_text (s_muni x) = k) (r_summary rep)
              = filter (\<lambda>x. cell_text (s_muni x) = k)
                  (summary_data (metric_names df) (r_detection rep)))
       \<and> (\<forall>ys. sorted (map (\<lambda>x. cell_text (s_muni x)) ys)
              \<and> mset ys = mset (summary_data (metric_names df) (r_detection rep))
              \<and> (\<forall>k. filter (\<lambda>x. cell_text (s_muni x) = k) ys
                     = filter (\<lambda>x. cell_text (s_muni x) = k)
                         (summary_data (metric_names df) (r_detection rep)))
              \<longrightarrow> ys = r_summary rep)"
proof -
  let ?f = "\<lambda>x. cell_text (s_muni x)"
  let ?xs = "summary_data (metric_names df) (r_detection rep)"
  from run_summary [OF run] have "sort_py ?xs = Inr (r_summary rep)" by auto
  with set_sort_py_text [OF text_keys] have eq: "r_summary rep = sort_key ?f ?xs" by simp
  have uniq: "ys = r_summary rep"
    if "sorted (map ?f ys)" and "mset ys = mset ?xs"
      and "\<forall>k. filter (\<lambda>x. ?f x = k) ys = filter (\<lambda>x. ?f x = k) ?xs" for ys
  proof -
    have "sort_key ?f ?xs = ys"
    proof (rule properties_for_sort_key)
      show "mset ys = mset ?xs" by (fact that(2))
      show "sorted (map ?f ys)" by (fact that(1))
      fix k assume "k \<in> set ys"
      from that(3) have "filter (\<lambda>x. ?f x = ?f k) ys = filter (\<lambda>x. ?f x = ?f k) ?xs" by blast
      then show "filter (\<lambda>x. ?f k = ?f x) ys = filter (\<lambda>x. ?f k = ?f x) ?xs"
        by (simp add: eq_commute)
    qed
    with eq show ?thesis by simp
  qed
  show ?thesis
    unfolding eq using uniq [unfolded eq] by (auto simp: sort_key_stable)
qed

lemma detect_three_texts:
  "detect float_of_digits exact_arith 5 2024
     (table_df [(Num 2024, Txt ''b'', Txt ''c'', Txt ''x''),
                (Num 2024, Txt ''B'', Txt ''c'', Txt ''y''),
                (Num 2024, Txt ''b'', Txt ''d'', Txt ''z'')])
   = Inr \<lparr>anomalies = [], missing_data = [],
          non_numeric =
            [\<lparr>nn_excel_row = 2, nn_excel_col = 4, nn_val = Txt ''x'', nn_year = Num 2024,
              nn_muni = Txt ''b'', nn_category = Txt ''c'', nn_metric = ''m1''\<rparr>,
             \<lparr>nn_excel_row = 3, nn_excel_col = 4, nn_val = Txt ''y'', nn_year = Num 2024,
              nn_muni = Txt ''B'', nn_category = Txt ''c'', nn_metric = ''m1''\<rparr>,
             \<lparr>nn_excel_row = 4, nn_excel_col = 4, nn_val = Txt ''z'', nn_year = Num 2024,
              nn_muni = Txt ''b'', nn_category = Txt ''d'', nn_metric = ''m1''\<rparr>]\<rparr>"
  by (simp add: detect_def eval_table eval_cell eval_parse)

text \<open>
  Events of the jurisdictions \<^verbatim>\<open>b\<close>, \<^verbatim>\<open>B\<close>, \<^verbatim>\<open>b\<close> come out as \<^verbatim>\<open>B\<close>, \<^verbatim>\<open>b\<close>, \<^verbatim>\<open>b\<close>, the two
  \<^verbatim>\<open>b\<close> in their order of insertion.
\<close>

theorem summary_sorted_by_jurisdiction_witness:
  "\<exists>rep. run_anomaly_detection float_of_digits exact_arith ascii_strip (\<lambda>x. [])
       (table_df [(Num 2024, Txt ''b'', Txt ''c'', Txt ''x''),
                  (Num 2024, Txt ''B'', Txt ''c'', Txt ''y''),
                  (Num 2024, Txt ''b'', Txt ''d'', Txt ''z'')]) 5 2024 = Inr rep
     \<and> map s_muni (r_summary rep) = [Txt ''B'', Txt ''b'', Txt ''b'']
     \<and> map s_value (r_summary rep) = [Txt ''y'', Txt ''x'', Txt ''z'']
     \<and> sorted (map (\<lambda>x. cell_text (s_muni x)) (r_summary rep))"
proof -
  let ?df = "table_df [(Num 2024, Txt ''b'', Txt ''c'', Txt ''x''),
                  (Num 2024, Txt ''B'', Txt ''c'', Txt ''y''),
                  (Num 2024, Txt ''b'', Txt ''d'', Txt ''z'')]"
  have lt: "''B'' < ''b''" "\<not> ''b'' < ''B''" "\<not> ''b'' < ''b''"
    by (simp_all add: less_char_def)
  obtain rep where run: "run_anomaly_detection float_of_digits exact_arith ascii_strip (\<lambda>x. []) ?df 5 2024 = Inr rep"
    and m: "map s_muni (r_summary rep) = [Txt ''B'', Txt ''b'', Txt ''b'']"
    and v: "map s_value (r_summary rep) = [Txt ''y'', Txt ''x'', Txt ''z'']"
    and d: "r_detection rep = \<lparr>anomalies = [], missing_data = [],
          non_numeric =
            [\<lparr>nn_excel_row = 2, nn_excel_col = 4, nn_val = Txt ''x'', nn_year = Num 2024,
              nn_muni = Txt ''b'', nn_category = Txt ''c'', nn_metric = ''m1''\<rparr>,
             \<lparr>nn_excel_row = 3, nn_excel_col = 4, nn_val = Txt ''y'', nn_year = Num 2024,
              nn_muni = Txt ''B'', nn_category = Txt ''c'', nn_metric = ''m1''\<rparr>,
             \<lparr>nn_excel_row = 4, nn_excel_col = 4, nn_val = Txt ''z'', nn_year = Num 2024,
              nn_muni = Txt ''b'', nn_category = Txt ''d'', nn_metric = ''m1''\<rparr>]\<rparr>"
    by (simp add: run_anomaly_detection_def detect_three_texts summary_data_def Let_def lt)
  have text_keys: "\<forall>x \<in> set (summary_data (metric_names ?df) (r_detection rep)). is_text (s_muni x)"
    by (simp add: d summary_data_def)
  from summary_sorted_by_jurisdiction [OF run text_keys]
  have "sorted (map (\<lambda>x. cell_text (s_muni x)) (r_summary rep))" by (rule conjunct1)
  with run m v show ?thesis by (intro exI [of _ rep]) simp
qed

section \<open>The pivoted table\<close>

lemma map_of_tabulate: "k \<in> set ks \<Longrightarrow> map_of (map (\<lambda>k. (k, f k)) ks) k = Some (f k)"
  by (induction ks) auto

lemma map_of_tabulate_None: "k \<notin> set ks \<Longrightarrow> map_of (map (\<lambda>k. (k, f k)) ks) k = None"
  by (induction ks) auto

lemma map_of_zip_tabulate: "y \<in> set ys \<Longrightarrow> map_of (zip ys (map g ys)) y = Some (g y)"
  by (induction ys) auto

lemma pivot_table_rows:
  "map fst (p_rows (pivot_table es))
     = sort (remdups (map lr_key (filter (\<lambda>e. \<not> isna (lr_value e)) (filter lr_grouped es))))"
  by (simp add: pivot_table_def Let_def comp_def)

lemma pivot_table_columns:
  "p_columns (pivot_table es)
     = sort (remdups (map lr_year (filter (\<lambda>e. \<not> isna (lr_value e)) (filter lr_grouped es))))"
  by (simp add: pivot_table_def Let_def)

lemma pivot_rows_distinct: "distinct (map fst (p_rows (pivot_table es)))"
  by (simp add: pivot_table_rows)

lemma pivot_columns_distinct: "distinct (p_columns (pivot_table es))"
  by (simp add: pivot_table_columns)

lemma pivot_rows_sorted: "sorted (map fst (p_rows (pivot_table es)))"
  by (simp add: pivot_table_rows)

lemma pivot_columns_sorted: "sorted (p_columns (pivot_table es))"
  by (simp add: pivot_table_columns)

lemma pivot_rows_set:
  "set (map fst (p_rows (pivot_table es)))
     = lr_key ` {e \<in> set es. lr_grouped e \<and> \<not> isna (lr_value e)}"
  unfolding pivot_table_rows by auto

lemma pivot_columns_set:
  "set (p_columns (pivot_table es))
     = lr_year ` {e \<in> set es. lr_grouped e \<and> \<not> isna (lr_value e)}"
  unfolding pivot_table_columns by auto

lemma pivot_cell_value:
  assumes "k \<in> set (map fst (p_rows (pivot_table es)))" and "y \<in> set (p_columns (pivot_table es))"
  shows "pivot_cell (pivot_table es) k y = Some (group_first (filter lr_grouped es) k y)"
proof -
  let ?A = "filter (\<lambda>e. \<not> isna (lr_value e)) (filter lr_grouped es)"
  let ?index = "sort (remdups (map lr_key ?A))"
  let ?columns = "sort (remdups (map lr_year ?A))"
  have k: "k \<in> set ?index" using assms(1) unfolding pivot_table_rows .
  have y: "y \<in> set ?columns" using assms(2) unfolding pivot_table_columns .
  have "map_of (p_rows (pivot_table es)) k
          = Some (map (group_first (filter lr_grouped es) k) ?columns)"
    using map_of_tabulate [OF k] by (simp add: pivot_table_def Let_def)
  then show ?thesis
    using map_of_zip_tabulate [OF y] by (simp add: pivot_cell_def pivot_table_columns)
qed

lemma pivot_cell_no_row:
  assumes "k \<notin> set (map fst (p_rows (pivot_table es)))"
  shows "pivot_cell (pivot_table es) k y = None"
proof -
  have "map_of (p_rows (pivot_table es)) k = None"
    using assms by (simp add: map_of_eq_None_iff)
  then show ?thesis by (simp add: pivot_cell_def)
qed

text \<open>Inside a group the keys are present, so grouping does not change the first value.\<close>

lemma group_first_grouped:
  assumes "\<not> isna m" and "\<not> isna c" and "\<not> isna y"
  shows "group_first (filter lr_grouped es) (m, c, mt) y = group_first es (m, c, mt) y"
proof -
  have "filter (\<lambda>e. lr_key e = (m, c, mt) \<and> lr_year e = y \<and> \<not> isna (lr_value e)) (filter lr_grouped es)
      = filter (\<lambda>e. lr_key e = (m, c, mt) \<and> lr_year e = y \<and> \<not> isna (lr_value e)) es"
    using assms by (auto simp: filter_eq_iff intro!: filter_cong)
  then show ?thesis by (simp add: group_first_def)
qed

lemma group_first_present:
  assumes "e \<in> set es" and "lr_key e = k" and "lr_year e = y" and "\<not> isna (lr_value e)"
  shows "\<not> isna (group_first es k y)
       \<and> group_first es k y
           = lr_value (hd (filter (\<lambda>e. lr_key e = k \<and> lr_year e = y \<and> \<not> isna (lr_value e)) es))"
proof -
  let ?fs = "filter (\<lambda>e. lr_key e = k \<and> lr_year e = y \<and> \<not> isna (lr_value e)) es"
  from assms have "e \<in> set ?fs" by simp
  then obtain f fs where fs: "?fs = f # fs" by (cases ?fs) auto
  then have "f \<in> set ?fs" by simp
  then have "\<not> isna (lr_value f)" by simp
  with fs show ?thesis by (simp add: group_first_def)
qed

lemma transformed_set:
  "set (transformed cols dfd)
     = {(a_jurisdiction r, a_service r, m, a_fiscal_year r, metric_value r m) | i r m.
          (i, r) \<in> set dfd \<and> m \<in> set cols}"
  by (auto simp: transformed_def)

lemmas eval_pivot = transform_data_def transformed_def pivot_table_def group_first_def
  pivot_cell_def Let_def

text \<open>
  Claim C5, as amended. The pivoted table has no two rows with the same (jurisdiction,
  category, metric) and no two columns with the same year. For every observation of the
  detection set, in whatever year, whose jurisdiction, category and year are present and
  whose value under a metric is present, the table has the row of its triple and the
  column of its year, and the cell there is the first present value, in input order,
  among the observations with that triple and year. The table has no other row and no
  other column: every row and every column comes from such an observation.
\<close>

theorem pivot_first_present_value:
  assumes ir: "(i, r) \<in> set dfd" and m: "metric \<in> set cols"
    and j: "\<not> isna (a_jurisdiction r)" and c: "\<not> isna (a_service r)"
    and y: "\<not> isna (a_fiscal_year r)" and v: "\<not> isna (metric_value r metric)"
  shows "distinct (map fst (p_rows (transform_data cols dfd)))
       \<and> distinct (p_columns (transform_data cols dfd))
       \<and> (a_jurisdiction r, a_service r, metric) \<in> set (map fst (p_rows (transform_data cols dfd)))
       \<and> a_fiscal_year r \<in> set (p_columns (transform_data cols dfd))
       \<and> pivot_cell (transform_data cols dfd) (a_jurisdiction r, a_service r, metric) (a_fiscal_year r)
           = Some (lr_value (hd (filter (\<lambda>e. lr_key e = (a_jurisdiction r, a_service r, metric)
                                            \<and> lr_year e = a_fiscal_year r \<and> \<not> isna (lr_value e))
                                    (transformed cols dfd))))
       \<and> (\<forall>k \<in> set (map fst (p_rows (transform_data cols dfd))).
            \<exists>(i', r') \<in> set dfd. \<exists>m' \<in> set cols.
              k = (a_jurisdiction r', a_service r', m') \<and> \<not> isna (a_jurisdiction r')
              \<and> \<not> isna (a_service r') \<and> \<not> isna (a_fiscal_year r')
              \<and> \<not> isna (metric_value r' m'))
       \<and> (\<forall>y' \<in> set (p_columns (transform_data cols dfd)).
            \<exists>(i', r') \<in> set dfd. \<exists>m' \<in> set cols.
              y' = a_fiscal_year r' \<and> \<not> isna (a_jurisdiction r')
              \<and> \<not> isna (a_service r') \<and> \<not> isna (a_fiscal_year r')
              \<and> \<not> isna (metric_value r' m'))"
proof -
  let ?es = "transformed cols dfd"
  let ?k = "(a_jurisdiction r, a_service r, metric)"
  let ?e = "(a_jurisdiction r, a_service r, metric, a_fiscal_year r, metric_value r metric)"
  have e: "?e \<in> set ?es" using ir m unfolding transformed_set by blast
  have g: "lr_grouped ?e" "\<not> isna (lr_value ?e)" using j c y v by simp_all
  have k: "?k \<in> set (map fst (p_rows (pivot_table ?es)))"
    unfolding pivot_rows_set using e g by force
  have yc: "a_fiscal_year r \<in> set (p_columns (pivot_table ?es))"
    unfolding pivot_columns_set using e g by force
  have cell: "pivot_cell (pivot_table ?es) ?k (a_fiscal_year r)
      = Some (lr_value (hd (filter (\<lambda>e. lr_key e = ?k \<and> lr_year e = a_fiscal_year r
                                        \<and> \<not> isna (lr_value e)) ?es)))"
    using pivot_cell_value [OF k yc] group_first_grouped [OF j c y, of ?es metric]
      group_first_present [of ?e ?es ?k "a_fiscal_year r"] e v
    by simp
  have rows: "\<exists>(i', r') \<in> set dfd. \<exists>m' \<in> set cols.
              k = (a_jurisdiction r', a_service r', m') \<and> \<not> isna (a_jurisdiction r')
              \<and> \<not> isna (a_service r') \<and> \<not> isna (a_fiscal_year r')
              \<and> \<not> isna (metric_value r' m')"
    if "k \<in> set (map fst (p_rows (pivot_table ?es)))" for k
    using that unfolding pivot_rows_set transformed_set by fastforce
  have cols: "\<exists>(i', r') \<in> set dfd. \<exists>m' \<in> set cols.
              y' = a_fiscal_year r' \<and> \<not> isna (a_jurisdiction r')
              \<and> \<not> isna (a_service r') \<and> \<not> isna (a_fiscal_year r')
              \<and> \<not> isna (metric_value r' m')"
    if "y' \<in> set (p_columns (pivot_table ?es))" for y'
    using that unfolding pivot_columns_set transformed_set by fastforce
  show ?thesis
    unfolding transform_data_def
    using pivot_rows_distinct [of ?es] pivot_columns_distinct [of ?es] k yc cell rows cols
    by blast
qed

lemma pivot_first_absent:
  "transform_data [''m1'']
     (df_detection (table_df [(Num 2020, Txt ''A'', Txt ''c'', NaN),
                              (Num 2020, Txt ''A'', Txt ''c'', Num 7)]))
   = \<lparr>p_columns = [Num 2020], p_rows = [((Txt ''A'', Txt ''c'', ''m1''), [Num 7])]\<rparr>"
  by (simp add: eval_table eval_pivot)

lemma pivot_absent_row:
  "transform_data [''m1'']
     (df_detection (table_df [(Num 2020, Txt ''A'', Txt ''c'', Num 5),
                              (Num 2021, Txt ''B'', Txt ''c'', NaN)]))
   = \<lparr>p_columns = [Num 2020], p_rows = [((Txt ''A'', Txt ''c'', ''m1''), [Num 5])]\<rparr>"
  by (simp add: eval_table eval_pivot)

text \<open>
  Three rows of one triple and year with the values missing, 7 and 8: the cell holds 7.
\<close>

theorem pivot_first_present_value_witness:
  "pivot_cell
     (transform_data [''m1'']
        (df_detection (table_df [(Num 2020, Txt ''A'', Txt ''c'', NaN),
                                 (Num 2020, Txt ''A'', Txt ''c'', Num 7),
                                 (Num 2020, Txt ''A'', Txt ''c'', Num 8)])))
     (Txt ''A'', Txt ''c'', ''m1'') (Num 2020) = Some (Num 7)"
proof -
  let ?dfd = "df_detection (table_df [(Num 2020, Txt ''A'', Txt ''c'', NaN),
                                 (Num 2020, Txt ''A'', Txt ''c'', Num 7),
                                 (Num 2020, Txt ''A'', Txt ''c'', Num 8)])"
  let ?r = "obs (Num 2020) (Txt ''A'') (Txt ''c'') [(''m1'', Num 8)]"
  have ir: "(2, ?r) \<in> set ?dfd" by (simp add: eval_table)
  have m: "''m1'' \<in> set [''m1'']" by simp
  have j: "\<not> isna (a_jurisdiction ?r)" and c: "\<not> isna (a_service ?r)"
    and y: "\<not> isna (a_fiscal_year ?r)" and v: "\<not> isna (metric_value ?r ''m1'')"
    by (simp_all add: obs_def)
  have "pivot_cell (transform_data [''m1''] ?dfd) (a_jurisdiction ?r, a_service ?r, ''m1'')
          (a_fiscal_year ?r)
        = Some (lr_value (hd (filter (\<lambda>e. lr_key e = (a_jurisdiction ?r, a_service ?r, ''m1'')
                                            \<and> lr_year e = a_fiscal_year ?r \<and> \<not> isna (lr_value e))
                                    (transformed [''m1''] ?dfd))))"
    using pivot_first_present_value [OF ir m j c y v] by blast
  then show ?thesis
    by (simp add: eval_table transformed_def)
qed

text \<open>
  Claim C5 as stated fails twice: a triple whose only value is missing has no row in the
  pivoted table, and when the first observation of a triple and year has a missing
  value the cell holds a later value, not the first one encountered.
\<close>

theorem pivot_row_per_triple_counterexample:
  "\<not> (\<forall>df i r m. (i, r) \<in> set (df_detection df) \<longrightarrow> m \<in> set (metric_cols df) \<longrightarrow>
          (a_jurisdiction r, a_service r, m)
            \<in> set (map fst (p_rows (transform_data (metric_cols df) (df_detection df)))))
   \<and> \<not> (\<forall>df i r m. (i, r) \<in> set (df_detection df) \<longrightarrow> m \<in> set (metric_cols df) \<longrightarrow>
          pivot_cell (transform_data (metric_cols df) (df_detection df))
            (a_jurisdiction r, a_service r, m) (a_fiscal_year r)
          = Some (lr_value (hd (filter (\<lambda>e. lr_key e = (a_jurisdiction r, a_service r, m)
                                            \<and> lr_year e = a_fiscal_year r)
                                    (transformed (metric_cols df) (df_detection df))))))"
proof (intro conjI notI)
  let ?df = "table_df [(Num 2020, Txt ''A'', Txt ''c'', Num 5), (Num 2021, Txt ''B'', Txt ''c'', NaN)]"
  let ?r = "obs (Num 2021) (Txt ''B'') (Txt ''c'') [(''m1'', NaN)]"
  assume claim: "\<forall>df i r m. (i, r) \<in> set (df_detection df) \<longrightarrow> m \<in> set (metric_cols df) \<longrightarrow>
          (a_jurisdiction r, a_service r, m)
            \<in> set (map fst (p_rows (transform_data (metric_cols df) (df_detection df))))"
  have ir: "(1, ?r) \<in> set (df_detection ?df)" by (simp add: eval_table)
  have m: "''m1'' \<in> set (metric_cols ?df)" by (simp add: eval_table)
  have cols: "metric_cols ?df = [''m1'']" by (simp add: eval_table)
  from claim [rule_format, OF ir m] show False
    unfolding cols pivot_absent_row by (simp add: obs_def)
next
  let ?df = "table_df [(Num 2020, Txt ''A'', Txt ''c'', NaN), (Num 2020, Txt ''A'', Txt ''c'', Num 7)]"
  let ?r = "obs (Num 2020) (Txt ''A'') (Txt ''c'') [(''m1'', NaN)]"
  assume claim: "\<forall>df i r m. (i, r) \<in> set (df_detection df) \<longrightarrow> m \<in> set (metric_cols df) \<longrightarrow>
          pivot_cell (transform_data (metric_cols df) (df_detection df))
            (a_jurisdiction r, a_service r, m) (a_fiscal_year r)
          = Some (lr_value (hd (filter (\<lambda>e. lr_key e = (a_jurisdiction r, a_service r, m)
                                            \<and> lr_year e = a_fiscal_year r)
                                    (transformed (metric_cols df) (df_detection df)))))"
  have ir: "(0, ?r) \<in> set (df_detection ?df)" by (simp add: eval_table)
  have m: "''m1'' \<in> set (metric_cols ?df)" by (simp add: eval_table)
  have cols: "metric_cols ?df = [''m1'']" by (simp add: eval_table)
  have first: "lr_value (hd (filter (\<lambda>e. lr_key e = (a_jurisdiction ?r, a_service ?r, ''m1'')
                                            \<and> lr_year e = a_fiscal_year ?r)
                                    (transformed [''m1''] (df_detection ?df)))) = NaN"
    by (simp add: eval_table transformed_def)
  from claim [rule_format, OF ir m] show False
    unfolding cols pivot_first_absent first by (simp add: obs_def pivot_cell_def)
qed

lemma df_detection_nth:
  "(i, r) \<in> set (df_detection df) \<Longrightarrow>
     i < length (body df) \<and> r = body df ! i \<and> \<not> isna (a_service r)"
  by (auto simp: df_detection_def in_set_enumerate_eq)

text \<open>
  Claim C7, as amended. After a completed detection every event comes from a row of the
  table with a category and with a year that parses as the target year, and every row
  and every year column of the pivoted table comes from a row of the table with a
  category and a year that is not missing. So a row without category yields no event
  and no part of the pivoted table, and a row whose year does not parse yields no event.
\<close>

theorem events_and_pivot_rows_have_category_and_year:
  assumes det: "detect pf ar threshold target_year df = Inr det"
  shows "(\<forall>a \<in> set (anomalies det). \<exists>i < length (body df).
            an_excel_row a = i + 2 \<and> an_category a = a_service (body df ! i)
            \<and> an_year a = a_fiscal_year (body df ! i) \<and> \<not> isna (an_category a)
            \<and> py_float pf (an_year a) = Inr (Some (of_int target_year)))
       \<and> (\<forall>a \<in> set (missing_data det). \<exists>i < length (body df).
            ms_excel_row a = i + 2 \<and> ms_category a = a_service (body df ! i)
            \<and> ms_year a = a_fiscal_year (body df ! i) \<and> \<not> isna (ms_category a)
            \<and> py_float pf (ms_year a) = Inr (Some (of_int target_year)))
       \<and> (\<forall>a \<in> set (non_numeric det). \<exists>i < length (body df).
            nn_excel_row a = i + 2 \<and> nn_category a = a_service (body df ! i)
            \<and> nn_year a = a_fiscal_year (body df ! i) \<and> \<not> isna (nn_category a)
            \<and> py_float pf (nn_year a) = Inr (Some (of_int target_year)))
       \<and> (\<forall>k \<in> set (map fst (p_rows (transform_data (metric_cols df) (df_detection df)))).
            \<exists>i < length (body df). \<exists>m \<in> set (metric_cols df).
              k = (a_jurisdiction (body df ! i), a_service (body df ! i), m)
              \<and> \<not> isna (a_service (body df ! i)) \<and> \<not> isna (a_fiscal_year (body df ! i)))
       \<and> (\<forall>y \<in> set (p_columns (transform_data (metric_cols df) (df_detection df))).
            \<exists>i < length (body df). y = a_fiscal_year (body df ! i) \<and> \<not> isna y
              \<and> \<not> isna (a_service (body df ! i)))"
proof (intro conjI ballI)
  fix a assume "a \<in> set (anomalies det)"
  then obtain m i r where ir: "(i, r) \<in> set (df_detection df)"
    and c: "classify_cell pf ar threshold target_year (metric_cols df) (df_detection df) m (i, r)
              = Inr (IsAnomaly a)"
    unfolding detect_anomalies [OF det] by auto
  from ir have "i < length (body df) \<and> r = body df ! i \<and> \<not> isna (a_service r)"
    by (rule df_detection_nth)
  with classify_cell_anomaly [OF c]
  show "\<exists>i < length (body df).
            an_excel_row a = i + 2 \<and> an_category a = a_service (body df ! i)
            \<and> an_year a = a_fiscal_year (body df ! i) \<and> \<not> isna (an_category a)
            \<and> py_float pf (an_year a) = Inr (Some (of_int target_year))"
    by auto
next
  fix a assume "a \<in> set (missing_data det)"
  then obtain m i r where ir: "(i, r) \<in> set (df_detection df)"
    and c: "classify_cell pf ar threshold target_year (metric_cols df) (df_detection df) m (i, r)
              = Inr (IsMissing a)"
    unfolding detect_missing [OF det] by auto
  from ir have "i < length (body df) \<and> r = body df ! i \<and> \<not> isna (a_service r)"
    by (rule df_detection_nth)
  with classify_cell_missing [OF c]
  show "\<exists>i < length (body df).
            ms_excel_row a = i + 2 \<and> ms_category a = a_service (body df ! i)
            \<and> ms_year a = a_fiscal_year (body df ! i) \<and> \<not> isna (ms_category a)
            \<and> py_float pf (ms_year a) = Inr (Some (of_int target_year))"
    by auto
next
  fix a assume "a \<in> set (non_numeric det)"
  then obtain m i r where ir: "(i, r) \<in> set (df_detection df)"
    and c: "classify_cell pf ar threshold target_year (metric_cols df) (df_detection df) m (i, r)
              = Inr (IsNonNumeric a)"
    unfolding detect_non_numeric [OF det] by auto
  from ir have "i < length (body df) \<and> r = body df ! i \<and> \<not> isna (a_service r)"
    by (rule df_detection_nth)
  with classify_cell_non_numeric [OF c]
  show "\<exists>i < length (body df).
            nn_excel_row a = i + 2 \<and> nn_category a = a_service (body df ! i)
            \<and> nn_year a = a_fiscal_year (body df ! i) \<and> \<not> isna (nn_category a)
            \<and> py_float pf (nn_year a) = Inr (Some (of_int target_year))"
    by auto
next
  fix k assume "k \<in> set (map fst (p_rows (transform_data (metric_cols df) (df_detection df))))"
  then obtain e where e: "e \<in> set (transformed (metric_cols df) (df_detection df))"
    and g: "lr_grouped e" and k: "k = lr_key e"
    unfolding transform_data_def pivot_rows_set by auto
  from e obtain i r m where ir: "(i, r) \<in> set (df_detection df)" and m: "m \<in> set (metric_cols df)"
    and e': "e = (a_jurisdiction r, a_service r, m, a_fiscal_year r, metric_value r m)"
    unfolding transformed_set by auto
  from ir have "i < length (body df) \<and> r = body df ! i \<and> \<not> isna (a_service r)"
    by (rule df_detection_nth)
  with g k e' m
  show "\<exists>i < length (body df). \<exists>m \<in> set (metric_cols df).
              k = (a_jurisdiction (body df ! i), a_service (body df ! i), m)
              \<and> \<not> isna (a_service (body df ! i)) \<and> \<not> isna (a_fiscal_year (body df ! i))"
    by auto
next
  fix y assume "y \<in> set (p_columns (transform_data (metric_cols df) (df_detection df)))"
  then obtain e where e: "e \<in> set (transformed (metric_cols df) (df_detection df))"
    and g: "lr_grouped e" and y: "y = lr_year e"
    unfolding transform_data_def pivot_columns_set by auto
  from e obtain i r m where ir: "(i, r) \<in> set (df_detection df)" and m: "m \<in> set (metric_cols df)"
    and e': "e = (a_jurisdiction r, a_service r, m, a_fiscal_year r, metric_value r m)"
    unfolding transformed_set by auto
  from ir have "i < length (body df) \<and> r = body df ! i \<and> \<not> isna (a_service r)"
    by (rule df_detection_nth)
  with g y e'
  show "\<exists>i < length (body df). y = a_fiscal_year (body df ! i) \<and> \<not> isna y
              \<and> \<not> isna (a_service (body df ! i))"
    by auto
qed

lemma detect_skipped_rows:
  "detect float_of_digits exact_arith 5 2024
     (table_df [(Num 2024, Txt ''A'', NaN, Txt ''x''),
                (NaN, Txt ''A'', Txt ''c'', Txt ''y''),
                (Num 2024, Txt ''A'', Txt ''c'', Txt ''z'')])
   = Inr \<lparr>anomalies = [], missing_data = [],
          non_numeric =
            [\<lparr>nn_excel_row = 4, nn_excel_col = 4, nn_val = Txt ''z'', nn_year = Num 2024,
              nn_muni = Txt ''A'', nn_category = Txt ''c'', nn_metric = ''m1''\<rparr>]\<rparr>"
  by (simp add: detect_def eval_table eval_cell eval_parse)

text \<open>
  A row without category, a row without year and a complete row: the run appends one
  event, which comes from the complete row.
\<close>

theorem events_and_pivot_rows_have_category_and_year_witness:
  "detect float_of_digits exact_arith 5 2024
     (table_df [(Num 2024, Txt ''A'', NaN, Txt ''x''),
                (NaN, Txt ''A'', Txt ''c'', Txt ''y''),
                (Num 2024, Txt ''A'', Txt ''c'', Txt ''z'')])
   = Inr \<lparr>anomalies = [], missing_data = [],
          non_numeric =
            [\<lparr>nn_excel_row = 4, nn_excel_col = 4, nn_val = Txt ''z'', nn_year = Num 2024,
              nn_muni = Txt ''A'', nn_category = Txt ''c'', nn_metric = ''m1''\<rparr>]\<rparr>
   \<and> (\<exists>i < length (body (table_df [(Num 2024, Txt ''A'', NaN, Txt ''x''),
                (NaN, Txt ''A'', Txt ''c'', Txt ''y''),
                (Num 2024, Txt ''A'', Txt ''c'', Txt ''z'')])).
      4 = i + 2
      \<and> Txt ''c'' = a_service (body (table_df [(Num 2024, Txt ''A'', NaN, Txt ''x''),
                (NaN, Txt ''A'', Txt ''c'', Txt ''y''),
                (Num 2024, Txt ''A'', Txt ''c'', Txt ''z'')]) ! i)
      \<and> py_float float_of_digits (Num 2024) = Inr (Some (of_int 2024)))"
proof -
  let ?df = "table_df [(Num 2024, Txt ''A'', NaN, Txt ''x''),
                (NaN, Txt ''A'', Txt ''c'', Txt ''y''),
                (Num 2024, Txt ''A'', Txt ''c'', Txt ''z'')]"
  let ?n = "\<lparr>nn_excel_row = 4, nn_excel_col = 4, nn_val = Txt ''z'', nn_year = Num 2024,
              nn_muni = Txt ''A'', nn_category = Txt ''c'', nn_metric = ''m1''\<rparr>"
  note th = events_and_pivot_rows_have_category_and_year [OF detect_skipped_rows]
  from th [THEN conjunct2, THEN conjunct2, THEN conjunct1, rule_format, of ?n]
  have "\<exists>i < length (body ?df).
      4 = i + 2 \<and> Txt ''c'' = a_service (body ?df ! i)
      \<and> py_float float_of_digits (Num 2024) = Inr (Some (of_int 2024))"
    by simp
  with detect_skipped_rows show ?thesis by (rule conjI)
qed

lemma detect_text_year:
  "detect float_of_digits exact_arith 5 2024 (table_df [(Txt ''abc'', Txt ''A'', Txt ''c'', Num 5)])
   = Inr \<lparr>anomalies = [], missing_data = [], non_numeric = []\<rparr>"
  by (simp add: detect_def eval_table eval_cell eval_parse)

lemma pivot_text_year:
  "transform_data [''m1''] (df_detection (table_df [(Txt ''abc'', Txt ''A'', Txt ''c'', Num 5)]))
   = \<lparr>p_columns = [Txt ''abc''], p_rows = [((Txt ''A'', Txt ''c'', ''m1''), [Num 5])]\<rparr>"
  by (simp add: eval_table eval_pivot)

text \<open>
  Claim C7 as stated fails: a row whose year is the text \<^verbatim>\<open>abc\<close> yields no event, the
  run completes, and the pivoted table has a column \<^verbatim>\<open>abc\<close> with the value of that row.
\<close>

theorem unparseable_year_in_pivot_counterexample:
  "\<not> (\<forall>pf df y. y \<in> set (p_columns (transform_data (metric_cols df) (df_detection df))) \<longrightarrow>
          (\<exists>x. py_float pf y = Inr (Some x)))
   \<and> (\<exists>rep. run_anomaly_detection float_of_digits exact_arith ascii_strip (\<lambda>x. [])
         (table_df [(Txt ''abc'', Txt ''A'', Txt ''c'', Num 5)]) 5 2024 = Inr rep
       \<and> p_columns (r_pivot rep) = [Txt ''abc'']
       \<and> p_rows (r_pivot rep) = [((Txt ''A'', Txt ''c'', ''m1''), [Num 5])])
   \<and> py_float float_of_digits (Txt ''abc'') = Inl ValueError"
proof (intro conjI notI)
  let ?df = "table_df [(Txt ''abc'', Txt ''A'', Txt ''c'', Num 5)]"
  have cols: "metric_cols ?df = [''m1'']" by (simp add: eval_table)
  assume claim: "\<forall>pf df y. y \<in> set (p_columns (transform_data (metric_cols df) (df_detection df)))
      \<longrightarrow> (\<exists>x. py_float pf y = Inr (Some x))"
  have "Txt ''abc'' \<in> set (p_columns (transform_data (metric_cols ?df) (df_detection ?df)))"
    unfolding cols pivot_text_year by simp
  from claim [rule_format, OF this, of float_of_digits] show False
    by (simp add: eval_parse)
next
  let ?df = "table_df [(Txt ''abc'', Txt ''A'', Txt ''c'', Num 5)]"
  have cols: "metric_cols ?df = [''m1'']" by (simp add: eval_table)
  show "\<exists>rep. run_anomaly_detection float_of_digits exact_arith ascii_strip (\<lambda>x. []) ?df 5 2024 = Inr rep
       \<and> p_columns (r_pivot rep) = [Txt ''abc'']
       \<and> p_rows (r_pivot rep) = [((Txt ''A'', Txt ''c'', ''m1''), [Num 5])]"
    by (simp add: run_anomaly_detection_def detect_text_year summary_data_def Let_def cols
        pivot_text_year)
next
  show "py_float float_of_digits (Txt ''abc'') = Inl ValueError"
    by (simp add: eval_parse)
qed

text \<open>A table whose year column holds texts: the comparison of the history raises.\<close>

lemma detect_text_years_raises:
  "detect float_of_digits exact_arith 5 2024
     (table_df [(Txt ''abc'', Txt ''A'', Txt ''c'', Num 5),
                (Txt ''2024'', Txt ''A'', Txt ''c'', Num 7)]) = Inl TypeError"
  by (simp add: detect_def eval_table eval_cell eval_parse)

end
